theory Spec2Isabelle
  imports Main
begin

section \<open>The class table of \<^verbatim>\<open>statements.ts\<close>\<close>

text \<open>
  Every class that \<^verbatim>\<open>statements.ts\<close> exports, under its own name (\<^verbatim>\<open>If\<close> and
  \<^verbatim>\<open>Property\<close> carry a prime: HOL has constants of these names). A node's
  \<^verbatim>\<open>constructor\<close> is one of these values. The classes that are no blocks, keep
  \<^verbatim>\<open>CodeNode\<close>'s \<^verbatim>\<open>statementLevelTerminal\<close> and \<^verbatim>\<open>toString\<close>, and render by a
  composition rule of their own are listed in two types of their own, \<open>exprClass\<close>
  (expressions and simple statements) and \<open>declClass\<close> (types, imports, exports and
  bindings), and enter \<open>ctor\<close> through \<open>Expr\<close> and \<open>Decl\<close>.
\<close>

datatype (plugins only: size) exprClass =
    RegexLiteral | Parenthetical | TemplateLiteralPiece | TemplatePattern | TaggedTemplate
  | UnaryOperation | Return | Throw | BinaryOperation | PropertyAccess | TernaryOperation
  | Call | ObjectLiteralProperty | ElementAccess | InstanceOf | New | Delete | TypeOf | Spread
  | KeywordOperator | Break | Continue | Void | TypeAssertion | LabeledStatement

datatype (plugins only: size) declClass =
    InternalModuleImport | RequireImport | QualifiedName | QualifiedTypeName | ArrayType
  | UnionType | ParenthesizedType | TupleType | TypeAlias | EnumEntry
  | AbstractCallableSignature | CallableSignature | CallableType | Property' | ExportAssignment
  | Index | NamedImportOrExports | NamespaceBinding | ES6Import | ExportDeclaration
  | SimpleImport | ComputedDeclarationName | ArrayBinding | BindingElement | ObjectBinding

datatype (plugins only: size) ctor =
    CodeNode | AbstractBlock | AbstractStatementBlock | CodeBlock | AbstractExpressionBlock
  | SimpleNode | Keyword | EmptyExpression | Source | Module | KeywordType | Enumeration
  | TypeParameter | TypeLiteral | Interface | Function | Lambda | Class | Trivia | AtomicValue
  | ArrayLiteral | Identifier | ObjectLiteral | VariableDeclaration | If' | Loop | Try
  | ForInOf | For | With | Case | Switch
  | Expr exprClass | Decl declClass

text \<open>The \<^verbatim>\<open>extends\<close> clause of each class; \<^verbatim>\<open>CodeNode\<close> is the root.\<close>

definition extendsExpr :: "exprClass \<Rightarrow> ctor" where
  "extendsExpr c =
     (if c \<in> {Return, Throw, Delete, TypeOf, Spread} then Expr UnaryOperation
      else if c = InstanceOf then Expr BinaryOperation
      else if c \<in> {Break, Continue, Void} then Expr KeywordOperator
      else CodeNode)"

definition extendsDecl :: "declClass \<Rightarrow> ctor" where
  "extendsDecl c =
     (if c \<in> {CallableSignature, CallableType} then Decl AbstractCallableSignature
      else CodeNode)"

definition extends :: "ctor \<Rightarrow> ctor option" where
  "extends c =
     (case c of
        CodeNode \<Rightarrow> None
      | AbstractBlock \<Rightarrow> Some CodeNode
      | AbstractStatementBlock \<Rightarrow> Some AbstractBlock
      | CodeBlock \<Rightarrow> Some AbstractStatementBlock
      | AbstractExpressionBlock \<Rightarrow> Some AbstractBlock
      | SimpleNode \<Rightarrow> Some CodeNode
      | Keyword \<Rightarrow> Some SimpleNode
      | EmptyExpression \<Rightarrow> Some SimpleNode
      | Source \<Rightarrow> Some AbstractStatementBlock
      | Module \<Rightarrow> Some CodeBlock
      | KeywordType \<Rightarrow> Some SimpleNode
      | Enumeration \<Rightarrow> Some AbstractExpressionBlock
      | TypeParameter \<Rightarrow> Some CodeNode
      | TypeLiteral \<Rightarrow> Some CodeBlock
      | Interface \<Rightarrow> Some CodeBlock
      | Function \<Rightarrow> Some CodeBlock
      | Lambda \<Rightarrow> Some CodeBlock
      | Class \<Rightarrow> Some CodeBlock
      | Trivia \<Rightarrow> Some SimpleNode
      | AtomicValue \<Rightarrow> Some SimpleNode
      | ArrayLiteral \<Rightarrow> Some AbstractExpressionBlock
      | Identifier \<Rightarrow> Some SimpleNode
      | ObjectLiteral \<Rightarrow> Some AbstractExpressionBlock
      | VariableDeclaration \<Rightarrow> Some AbstractExpressionBlock
      | If' \<Rightarrow> Some CodeNode
      | Loop \<Rightarrow> Some CodeNode
      | Try \<Rightarrow> Some CodeNode
      | ForInOf \<Rightarrow> Some CodeNode
      | For \<Rightarrow> Some CodeNode
      | With \<Rightarrow> Some CodeNode
      | Case \<Rightarrow> Some AbstractStatementBlock
      | Switch \<Rightarrow> Some CodeBlock
      | Expr e \<Rightarrow> Some (extendsExpr e)
      | Decl d \<Rightarrow> Some (extendsDecl d))"

text \<open>
  The prototype chain of a class: the class itself, then its ancestors up to
  \<^verbatim>\<open>CodeNode\<close>. No class is more than four \<^verbatim>\<open>extends\<close> steps away from the root, so
  five steps reach it from every class (lemma \<open>prototypeChain_root\<close>).
\<close>

fun chainFrom :: "nat \<Rightarrow> ctor \<Rightarrow> ctor list" where
  "chainFrom 0 c = [c]"
| "chainFrom (Suc n) c = c # (case extends c of None \<Rightarrow> [] | Some p \<Rightarrow> chainFrom n p)"

definition prototypeChain :: "ctor \<Rightarrow> ctor list" where
  "prototypeChain c = chainFrom 5 c"

text \<open>\<^verbatim>\<open>x instanceof D\<close>, for an object \<^verbatim>\<open>x\<close> whose constructor is \<open>c\<close>.\<close>

definition subclassOf :: "ctor \<Rightarrow> ctor \<Rightarrow> bool" where
  "subclassOf c d = (d \<in> set (prototypeChain c))"

text \<open>
  Method lookup: the first class on the prototype chain that declares the method;
  \<open>declares\<close> tells which classes do.
\<close>

definition lookupMethod :: "(ctor \<Rightarrow> bool) \<Rightarrow> ctor \<Rightarrow> ctor" where
  "lookupMethod declares c =
     (case filter declares (prototypeChain c) of [] \<Rightarrow> CodeNode | d # _ \<Rightarrow> d)"

text \<open>The classes with a \<^verbatim>\<open>statementLevelTerminal()\<close> of their own.\<close>

definition declares_statementLevelTerminal :: "ctor \<Rightarrow> bool" where
  "declares_statementLevelTerminal c =
     (c \<in> {CodeNode, AbstractBlock, Function, Lambda, Trivia, VariableDeclaration,
            If', Loop, Try, ForInOf, For, With})"

text \<open>
  The classes with a \<^verbatim>\<open>buildString()\<close> of their own. \<^verbatim>\<open>TypeParameter\<close> has none: it
  overrides \<^verbatim>\<open>toString()\<close> instead.
\<close>

definition declares_buildString :: "ctor \<Rightarrow> bool" where
  "declares_buildString c =
     (case c of
        Expr e \<Rightarrow> e \<notin> {Return, Throw, InstanceOf, Delete, TypeOf, Spread, Break, Continue, Void}
      | Decl d \<Rightarrow> d \<notin> {CallableSignature, CallableType}
      | _ \<Rightarrow> c \<in> {CodeNode, AbstractBlock, AbstractStatementBlock, CodeBlock,
                    AbstractExpressionBlock, SimpleNode, Source, Module, Enumeration,
                    Interface, Function, Lambda, Class, ArrayLiteral, ObjectLiteral,
                    VariableDeclaration, If', Loop, Try, ForInOf, For, With, Case, Switch})"

text \<open>
  The classes with a \<^verbatim>\<open>buildChildren()\<close> of their own. Each override but
  \<^verbatim>\<open>AbstractBlock\<close>'s returns \<^verbatim>\<open>super.buildChildren().concat(...)\<close>.
\<close>

definition declares_buildChildren :: "ctor \<Rightarrow> bool" where
  "declares_buildChildren c =
     (case c of
        Expr e \<Rightarrow> e \<notin> {RegexLiteral, TemplateLiteralPiece, Return, Throw, InstanceOf, Delete,
                         TypeOf, Spread, Break, Continue, Void}
      | Decl d \<Rightarrow> d \<notin> {CallableSignature, CallableType}
      | _ \<Rightarrow> c \<in> {CodeNode, AbstractBlock, Module, TypeParameter, Interface, Function, Lambda,
                    Class, If', Loop, Try, ForInOf, For, With, Case, Switch})"

lemma prototypeChain_Expr:
  "prototypeChain (Expr e) =
     (if extendsExpr e = CodeNode then [Expr e, CodeNode] else [Expr e, extendsExpr e, CodeNode])"
  by (simp add: prototypeChain_def numeral_eq_Suc extends_def extendsExpr_def)

lemma prototypeChain_Decl:
  "prototypeChain (Decl d) =
     (if extendsDecl d = CodeNode then [Decl d, CodeNode] else [Decl d, extendsDecl d, CodeNode])"
  by (simp add: prototypeChain_def numeral_eq_Suc extends_def extendsDecl_def)

lemma prototypeChain_root: "last (prototypeChain c) = CodeNode"
proof (cases c)
  case (Expr e)
  then show ?thesis by (simp add: prototypeChain_Expr)
next
  case (Decl d)
  then show ?thesis by (simp add: prototypeChain_Decl)
qed (simp_all add: prototypeChain_def numeral_eq_Suc extends_def)

section \<open>The parse tree of the TypeScript compiler\<close>

text \<open>
  The repository reads the compiler's parse tree through a handful of accessors and
  never builds one. A \<open>tsnode\<close> is a \<^verbatim>\<open>ts.Node\<close> given by what those accessors return,
  as the mock source file of the repository's own test gives it
  (\<^verbatim>\<open>{kind, getText, getFullText, getStart, getFullStart}\<close>). \<open>ident\<close> stands for the
  object's identity, which \<^verbatim>\<open>addTrailingBlockSpacing\<close> compares. \<open>statements\<close> and
  \<open>endOfFileToken\<close> are the fields of a \<^verbatim>\<open>ts.SourceFile\<close> (\<open>None\<close>: the field is
  missing, as in the mock).

  \<open>SyntaxKind\<close> lists the kinds that \<^verbatim>\<open>analyzeModuleElement\<close> and
  \<^verbatim>\<open>analyzeStatement\<close> switch on; \<open>OtherKind k\<close> is any other value of the numeric
  enumeration. The kinds \<^verbatim>\<open>LabeledStatement\<close>, \<^verbatim>\<open>ExportDeclaration\<close> and
  \<^verbatim>\<open>ExportAssignment\<close> carry the suffix \<open>Kind\<close>: classes of \<^verbatim>\<open>statements.ts\<close>
  have the same names.
\<close>

datatype (plugins only: size) SyntaxKind =
    ClassDeclaration | ImportEqualsDeclaration | ModuleDeclaration | EnumDeclaration
  | TypeAliasDeclaration | InterfaceDeclaration | ImportDeclaration
  | LabeledStatementKind | ExportDeclarationKind | ExportAssignmentKind | SwitchStatement
  | WithStatement | ForOfStatement | ForInStatement | ForStatement | TryStatement
  | ThrowStatement | ReturnStatement | BreakStatement | ContinueStatement
  | DebuggerStatement | Block | DoStatement | WhileStatement | IfStatement | EmptyStatement
  | ExpressionStatement | VariableStatement | FunctionDeclaration
  | OtherKind int

datatype tsnode = TsNode
  (ident: nat)
  (kind: SyntaxKind)
  (getText: string)
  (getFullText: string)
  (getStart: int)
  (getFullStart: int)
  (getLeadingTriviaWidth: int)
  (getLastToken: "tsnode option")
  (statements: "tsnode list")
  (endOfFileToken: "tsnode option")

section \<open>Nodes\<close>

text \<open>
  Every \<^verbatim>\<open>throw\<close> of the modelled code, and the \<^verbatim>\<open>TypeError\<close> that JavaScript
  raises when a property of \<^verbatim>\<open>null\<close> or \<^verbatim>\<open>undefined\<close> is read.
  \<open>CouldNotAnalyze type text kind\<close> is the error of \<^verbatim>\<open>failAnalysis\<close>;
  \<open>Thrown\<close> is any other error that a construction rule of the analyzer raises.
\<close>

datatype error =
    NoTextFound
  | BlockIsAbstract
  | NullSourcePassed
  | SourceNotFound string
  | CouldNotAnalyze string string SyntaxKind
  | TypeError
  | Thrown string

text \<open>
  The fields of a node that hold no child: its constructor, the cached rendering
  \<open>text\<close> (\<open>None\<close> for \<^verbatim>\<open>null\<close> and \<^verbatim>\<open>undefined\<close>), the origin link \<open>node\<close>, and
  the fields that the modelled methods read: \<^verbatim>\<open>SimpleNode.token\<close>,
  \<^verbatim>\<open>TypeParameter.name\<close>, \<^verbatim>\<open>Source.fileName\<close>, \<^verbatim>\<open>AbstractBlock.bodyHasBeenAnalyzed\<close>,
  \<^verbatim>\<open>Function.declaredOnly\<close> and \<^verbatim>\<open>Lambda.isSingleExpression\<close>.
\<close>

record attrs =
  ctor :: ctor
  "text" :: "string option"
  node :: "tsnode option"
  token :: string
  name :: string
  fileName :: string
  bodyHasBeenAnalyzed :: bool
  declaredOnly :: bool
  isSingleExpression :: bool

text \<open>
  A node: its fields, the \<^verbatim>\<open>elements\<close> of a block, and \<open>parts\<close>, the fields that hold
  a child: those that the \<^verbatim>\<open>buildChildren()\<close> overrides of its class add after the
  elements, in their order and with \<open>None\<close> for a child that is \<^verbatim>\<open>null\<close>. So \<open>parts\<close> is
  \<^verbatim>\<open>[conditional, thenCode, elseCode]\<close> for an \<^verbatim>\<open>If\<close>,
  \<^verbatim>\<open>[initializer, container, body]\<close> for a \<^verbatim>\<open>ForInOf\<close> and \<^verbatim>\<open>[typeConstraint]\<close> for a
  \<^verbatim>\<open>TypeParameter\<close>. Children are values: the model has no two references to one
  child, as the specification's exclusive ownership has it.
\<close>

datatype codenode = Node (attrs: attrs) (elements: "codenode list") (parts: "codenode option list")

abbreviation ctorOf :: "codenode \<Rightarrow> ctor" where
  "ctorOf n \<equiv> ctor (attrs n)"

abbreviation textOf :: "codenode \<Rightarrow> string option" where
  "textOf n \<equiv> text (attrs n)"

abbreviation nodeOf :: "codenode \<Rightarrow> tsnode option" where
  "nodeOf n \<equiv> node (attrs n)"

text \<open>\<^verbatim>\<open>x instanceof D\<close> on a node.\<close>

definition instanceof :: "codenode \<Rightarrow> ctor \<Rightarrow> bool" where
  "instanceof n d = subclassOf (ctorOf n) d"

text \<open>
  \<^verbatim>\<open>new C(...)\<close>: the fields as the constructors leave them. \<^verbatim>\<open>text\<close> and
  \<^verbatim>\<open>node\<close> are unset, a block is unanalyzed and empty.
\<close>

definition new :: "ctor \<Rightarrow> codenode" where
  "new c = Node \<lparr>ctor = c, text = None, node = None, token = [], name = [], fileName = [],
                 bodyHasBeenAnalyzed = False, declaredOnly = False,
                 isSingleExpression = False\<rparr> [] []"

definition withAttrs :: "(attrs \<Rightarrow> attrs) \<Rightarrow> codenode \<Rightarrow> codenode" where
  "withAttrs f n = Node (f (attrs n)) (elements n) (parts n)"

text \<open>\<^verbatim>\<open>new SimpleNode(token)\<close> and its subclasses; \<^verbatim>\<open>new Source(fileName)\<close>.\<close>

definition newSimple :: "ctor \<Rightarrow> string \<Rightarrow> codenode" where
  "newSimple c tok = withAttrs (\<lambda>a. a\<lparr>token := tok\<rparr>) (new c)"

definition newSource :: "string \<Rightarrow> codenode" where
  "newSource f = withAttrs (\<lambda>a. a\<lparr>fileName := f\<rparr>) (new Source)"

definition setText :: "string \<Rightarrow> codenode \<Rightarrow> codenode" where
  "setText t n = withAttrs (\<lambda>a. a\<lparr>text := Some t\<rparr>) n"

definition registerWithNode :: "tsnode \<Rightarrow> codenode \<Rightarrow> codenode" where
  "registerWithNode e n = withAttrs (\<lambda>a. a\<lparr>node := Some e\<rparr>) n"

text \<open>
  \<^verbatim>\<open>buildChildren()\<close>: nothing for a \<^verbatim>\<open>CodeNode\<close>, the elements for a block
  (\<^verbatim>\<open>AbstractBlock.buildChildren\<close>), and then, for a class with an override further
  down, what the overrides \<^verbatim>\<open>concat\<close> to \<^verbatim>\<open>super.buildChildren()\<close>.
  \<^verbatim>\<open>getChildren()\<close> filters the \<^verbatim>\<open>null\<close>s out.
\<close>

definition buildChildren :: "codenode \<Rightarrow> codenode option list" where
  "buildChildren n =
     (if instanceof n AbstractBlock then map Some (elements n) else [])
     @ (if lookupMethod declares_buildChildren (ctorOf n) \<in> {CodeNode, AbstractBlock} then []
        else parts n)"

definition getChildren :: "codenode \<Rightarrow> codenode list" where
  "getChildren n = concat (map (\<lambda>c. case c of None \<Rightarrow> [] | Some x \<Rightarrow> [x]) (buildChildren n))"

text \<open>A field of \<open>parts\<close> by its position; a position beyond the list is a missing field.\<close>

definition part :: "codenode option list \<Rightarrow> nat \<Rightarrow> codenode option" where
  "part ps i = (if i < length ps then ps ! i else None)"

lemma part_size: "part ps i = Some c \<Longrightarrow> size c < Suc (size_list (size_option size) ps)"
proof -
  assume h: "part ps i = Some c"
  then have m: "Some c \<in> set ps"
    by (auto simp: part_def split: if_splits dest: nth_mem)
  have "size_option size (Some c) \<le> size_list (size_option size) ps"
    using m by (simp add: size_list_estimation')
  then show ?thesis by simp
qed

subsection \<open>canAnalyzeBody, resetBody\<close>

definition canAnalyzeBody :: "codenode \<Rightarrow> bool" where
  "canAnalyzeBody b = (\<not> bodyHasBeenAnalyzed (attrs b) \<and> length (elements b) = 0)"

definition resetBody :: "codenode \<Rightarrow> codenode" where
  "resetBody b = Node ((attrs b)\<lparr>bodyHasBeenAnalyzed := False\<rparr>) [] (parts b)"

subsection \<open>statementLevelTerminal\<close>

text \<open>
  The method bodies, by the class that declares the method. \<^verbatim>\<open>If\<close> asks
  \<^verbatim>\<open>(this.elseCode || this.thenCode)\<close>, which is a \<^verbatim>\<open>TypeError\<close> when both are missing;
  \<^verbatim>\<open>ForInOf\<close> tests \<^verbatim>\<open>this.body instanceof CodeBlock\<close>.
\<close>

function statementLevelTerminal :: "codenode \<Rightarrow> error + string" where
  "statementLevelTerminal (Node a els ps) =
     (let m = lookupMethod declares_statementLevelTerminal (ctor a) in
      if m = AbstractBlock then Inr []
      else if m = Function then Inr (if declaredOnly a then '';'' else [])
      else if m = Lambda then Inr (if isSingleExpression a then '';'' else [])
      else if m = Trivia then Inr []
      else if m = VariableDeclaration then Inr '';''
      else if m = If' then
        (case part ps 2 of
           Some elseCode \<Rightarrow> statementLevelTerminal elseCode
         | None \<Rightarrow>
             (case part ps 1 of
                Some thenCode \<Rightarrow> statementLevelTerminal thenCode
              | None \<Rightarrow> Inl TypeError))
      else if m = Loop then Inr []
      else if m = Try then Inr []
      else if m = ForInOf then
        Inr (case part ps 2 of
               Some body \<Rightarrow> if instanceof body CodeBlock then [] else '';''
             | None \<Rightarrow> '';'')
      else if m = For then Inr []
      else if m = With then Inr []
      else Inr '';'')"
  by pat_completeness auto
termination
  by (relation "measure size") (auto dest: part_size)

subsection \<open>toString and buildString\<close>

text \<open>
  A rendering returns a string or throws, and leaves the node with the renderings it
  cached on the way: \<^verbatim>\<open>toString()\<close> assigns \<^verbatim>\<open>this.text\<close>, in the node and in every
  child it renders.

  The composition rules (\<^verbatim>\<open>buildString\<close>) embedded here are those of \<^verbatim>\<open>CodeNode\<close>,
  \<^verbatim>\<open>AbstractBlock\<close>, \<^verbatim>\<open>AbstractStatementBlock\<close>, \<^verbatim>\<open>CodeBlock\<close>,
  \<^verbatim>\<open>AbstractExpressionBlock\<close>, \<^verbatim>\<open>SimpleNode\<close> and \<^verbatim>\<open>Source\<close>, with every class that
  inherits one of them. The rules of the other classes are the parameter \<open>\<beta>\<close>, of type
  \<open>rules\<close>: \<open>\<beta> n\<close> is what the rule of the class of \<open>n\<close> returns for \<open>n\<close>. Every theorem
  holds for every \<open>\<beta>\<close>.
\<close>

type_synonym rendering = "(error + string) \<times> codenode"

type_synonym rules = "codenode \<Rightarrow> rendering"

definition newline :: char where
  "newline = CHR 0x0A"

text \<open>
  \<^verbatim>\<open>toString\<close> is \<^verbatim>\<open>CodeNode.toString\<close>, and \<^verbatim>\<open>TypeParameter.toString\<close> for a
  \<^verbatim>\<open>TypeParameter\<close>, the one class that overrides it. \<^verbatim>\<open>buildString\<close> dispatches on
  the class that declares the method. \<open>statementTexts\<close> is the \<^verbatim>\<open>map\<close> of
  \<^verbatim>\<open>AbstractStatementBlock.buildString\<close> and \<open>expressionParts\<close> the \<^verbatim>\<open>map\<close> of
  \<^verbatim>\<open>AbstractExpressionBlock.buildString\<close>, which carries the index \<open>i\<close> and the variable
  \<^verbatim>\<open>lastNoSpaceIdx\<close>; both stop at the first element whose rendering throws.
\<close>

function toString :: "rules \<Rightarrow> codenode \<Rightarrow> rendering"
  and buildString :: "rules \<Rightarrow> codenode \<Rightarrow> rendering"
  and Source_buildString :: "rules \<Rightarrow> codenode \<Rightarrow> rendering"
  and CodeBlock_buildString :: "rules \<Rightarrow> codenode \<Rightarrow> rendering"
  and AbstractStatementBlock_buildString :: "rules \<Rightarrow> codenode \<Rightarrow> rendering"
  and AbstractExpressionBlock_buildString :: "rules \<Rightarrow> codenode \<Rightarrow> rendering"
  and statementTexts :: "rules \<Rightarrow> codenode list \<Rightarrow> (error + string list) \<times> codenode list"
  and expressionParts :: "rules \<Rightarrow> nat \<Rightarrow> int \<Rightarrow> codenode list \<Rightarrow> (error + string list \<times> int) \<times> codenode list"
where
  "toString \<beta> (Node a els ps) =
     (if ctor a = TypeParameter then
        (case ps of
           Some typeConstraint # rest \<Rightarrow>
             (case toString \<beta> typeConstraint of
                (Inl e, c') \<Rightarrow> (Inl e, Node a els (Some c' # rest))
              | (Inr s, c') \<Rightarrow> (Inr (name a @ '' extends '' @ s), Node a els (Some c' # rest)))
         | _ \<Rightarrow> (Inr (name a), Node a els ps))
      else
        (case text a of
           Some t \<Rightarrow> (Inr t, Node a els ps)
         | None \<Rightarrow>
             (case buildString \<beta> (Node a els ps) of
                (Inl e, n') \<Rightarrow> (Inl e, n')
              | (Inr s, n') \<Rightarrow> (Inr s, setText s n'))))"
| "buildString \<beta> (Node a els ps) =
     (let m = lookupMethod declares_buildString (ctor a) in
      if m = CodeNode then (Inl NoTextFound, Node a els ps)
      else if m = AbstractBlock then (Inl BlockIsAbstract, Node a els ps)
      else if m = AbstractStatementBlock then AbstractStatementBlock_buildString \<beta> (Node a els ps)
      else if m = CodeBlock then CodeBlock_buildString \<beta> (Node a els ps)
      else if m = AbstractExpressionBlock then AbstractExpressionBlock_buildString \<beta> (Node a els ps)
      else if m = SimpleNode then (Inr (token a), Node a els ps)
      else if m = Source then Source_buildString \<beta> (Node a els ps)
      else \<beta> (Node a els ps))"
| "Source_buildString \<beta> (Node a els ps) =
     (case AbstractStatementBlock_buildString \<beta> (Node a els ps) of
        (Inl e, n') \<Rightarrow> (Inl e, n')
      | (Inr result, n') \<Rightarrow>
          (Inr (if result \<noteq> [] \<and> last result = newline then result else result @ [newline]), n'))"
| "CodeBlock_buildString \<beta> (Node a els ps) =
     (case AbstractStatementBlock_buildString \<beta> (Node a els ps) of
        (Inl e, n') \<Rightarrow> (Inl e, n')
      | (Inr body, n') \<Rightarrow> (Inr (''{'' @ body @ ''}''), n'))"
| "AbstractStatementBlock_buildString \<beta> (Node a els ps) =
     (case statementTexts \<beta> els of
        (Inl e, els') \<Rightarrow> (Inl e, Node a els' ps)
      | (Inr ts, els') \<Rightarrow> (Inr (concat ts), Node a els' ps))"
| "AbstractExpressionBlock_buildString \<beta> (Node a els ps) =
     (case expressionParts \<beta> 0 (- 1) els of
        (Inl e, els') \<Rightarrow> (Inl e, Node a els' ps)
      | (Inr (strs, lastNoSpaceIdx), els') \<Rightarrow>
          (Inr (concat
                 (if lastNoSpaceIdx \<ge> 0
                  then (let str = strs ! nat lastNoSpaceIdx
                        in strs[nat lastNoSpaceIdx := take (length str - 1) str])
                  else strs)),
           Node a els' ps))"
| "statementTexts \<beta> [] = (Inr [], [])"
| "statementTexts \<beta> (s # ss) =
     (case toString \<beta> s of
        (Inl e, s') \<Rightarrow> (Inl e, s' # ss)
      | (Inr t, s') \<Rightarrow>
          (case statementLevelTerminal s' of
             Inl e \<Rightarrow> (Inl e, s' # ss)
           | Inr terminal \<Rightarrow>
               (case statementTexts \<beta> ss of
                  (Inl e, ss') \<Rightarrow> (Inl e, s' # ss')
                | (Inr ts, ss') \<Rightarrow> (Inr ((t @ terminal) # ts), s' # ss'))))"
| "expressionParts \<beta> i lastNoSpaceIdx [] = (Inr ([], lastNoSpaceIdx), [])"
| "expressionParts \<beta> i lastNoSpaceIdx (v # vs) =
     (case toString \<beta> v of
        (Inl e, v') \<Rightarrow> (Inl e, v' # vs)
      | (Inr t, v') \<Rightarrow>
          (case expressionParts \<beta> (Suc i) (if instanceof v Trivia then lastNoSpaceIdx else int i) vs of
             (Inl e, vs') \<Rightarrow> (Inl e, v' # vs')
           | (Inr (strs, l), vs') \<Rightarrow>
               (Inr ((if instanceof v Trivia then t else t @ '','') # strs, l), v' # vs')))"
  by pat_completeness auto
termination
  by (relation "measure (\<lambda>x. case x of
        Inl (Inl (Inl (\<beta>, n))) \<Rightarrow> 4 * size n + 3
      | Inl (Inl (Inr (\<beta>, n))) \<Rightarrow> 4 * size n + 2
      | Inl (Inr (Inl (\<beta>, n))) \<Rightarrow> 4 * size n + 1
      | Inl (Inr (Inr (\<beta>, n))) \<Rightarrow> 4 * size n + 1
      | Inr (Inl (Inl (\<beta>, n))) \<Rightarrow> 4 * size n
      | Inr (Inl (Inr (\<beta>, n))) \<Rightarrow> 4 * size n
      | Inr (Inr (Inl (\<beta>, ns))) \<Rightarrow> 4 * size_list size ns
      | Inr (Inr (Inr (\<beta>, i, l, ns))) \<Rightarrow> 4 * size_list size ns)") auto

section \<open>Invalidation\<close>

text \<open>
  \<^verbatim>\<open>findChild\<close> walks the tree breadth first with a queue of object references. A
  reference to a descendant is its path from the root here: the positions, in
  \<^verbatim>\<open>buildChildren()\<close>, of the children to go through. \<open>nodeAt\<close> reads the node at a
  path, \<open>updateAt\<close> changes it in place, and \<open>childPaths n p\<close> are the references that
  \<^verbatim>\<open>getChildren()\<close> returns for the node \<open>n\<close> at \<open>p\<close>.
\<close>

definition childAt :: "codenode \<Rightarrow> nat \<Rightarrow> codenode option" where
  "childAt n i = part (buildChildren n) i"

fun nodeAt :: "codenode \<Rightarrow> nat list \<Rightarrow> codenode option" where
  "nodeAt n [] = Some n"
| "nodeAt n (i # p) = (case childAt n i of None \<Rightarrow> None | Some c \<Rightarrow> nodeAt c p)"

definition setChild :: "codenode \<Rightarrow> nat \<Rightarrow> codenode \<Rightarrow> codenode" where
  "setChild n i c =
     (let k = (if instanceof n AbstractBlock then length (elements n) else 0)
      in if i < k then Node (attrs n) ((elements n)[i := c]) (parts n)
         else Node (attrs n) (elements n) ((parts n)[i - k := Some c]))"

fun updateAt :: "(codenode \<Rightarrow> codenode) \<Rightarrow> codenode \<Rightarrow> nat list \<Rightarrow> codenode" where
  "updateAt f n [] = f n"
| "updateAt f n (i # p) =
     (case childAt n i of None \<Rightarrow> n | Some c \<Rightarrow> setChild n i (updateAt f c p))"

definition childPaths :: "codenode \<Rightarrow> nat list \<Rightarrow> nat list list" where
  "childPaths n p =
     map (\<lambda>i. p @ [i]) (filter (\<lambda>i. childAt n i \<noteq> None) [0..<length (buildChildren n)])"

text \<open>
  \<^verbatim>\<open>markDirty()\<close> with \<^verbatim>\<open>recursive\<close> false, which is what the walker of a recursive
  \<^verbatim>\<open>markDirty\<close> calls on every descendant.
\<close>

definition markDirtyLocal :: "codenode \<Rightarrow> codenode" where
  "markDirtyLocal n =
     (if ctorOf n = CodeNode then n else withAttrs (\<lambda>a. a\<lparr>text := None\<rparr>) n)"

text \<open>
  \<open>frozen\<close> forgets the cached text of every node but the plain \<^verbatim>\<open>CodeNode\<close>s. It is
  what invalidation cannot change, and it measures the queue of the walk below.
\<close>

fun frozen :: "codenode \<Rightarrow> codenode" where
  "frozen (Node a els ps) =
     Node (if ctor a = CodeNode then a else a\<lparr>text := None\<rparr>)
       (map frozen els) (map (map_option frozen) ps)"

lemma ctorOf_frozen: "ctorOf (frozen n) = ctorOf n"
  by (cases n) simp

lemma buildChildren_frozen:
  "buildChildren (frozen n) = map (map_option frozen) (buildChildren n)"
  by (cases n) (simp add: buildChildren_def instanceof_def)

lemma childAt_frozen: "childAt (frozen n) i = map_option frozen (childAt n i)"
  by (simp add: childAt_def buildChildren_frozen part_def)

lemma nodeAt_frozen: "nodeAt (frozen n) p = map_option frozen (nodeAt n p)"
  by (induction p arbitrary: n) (auto simp: childAt_frozen split: option.splits)

lemma frozen_markDirtyLocal: "frozen (markDirtyLocal n) = frozen n"
  by (cases n) (simp add: markDirtyLocal_def withAttrs_def)

lemma frozen_setChild:
  assumes "childAt n i = Some c" and "frozen c' = frozen c"
  shows "frozen (setChild n i c') = frozen n"
proof (cases n)
  case (Node a els ps)
  show ?thesis
  proof (cases "instanceof n AbstractBlock \<and> i < length els")
    case True
    then have "els ! i = c"
      using assms(1) Node by (simp add: childAt_def part_def buildChildren_def nth_append)
    then have "(map frozen els)[i := frozen c'] = map frozen els"
      using True assms(2) by (metis length_map list_update_id nth_map)
    then show ?thesis
      using True Node by (simp add: setChild_def map_update)
  next
    case False
    define k where "k = (if instanceof n AbstractBlock then length els else 0)"
    have ik: "\<not> i < k" using False by (simp add: k_def)
    define own where "own = (if lookupMethod declares_buildChildren (ctorOf n)
        \<in> {CodeNode, AbstractBlock} then [] else ps)"
    have bc: "buildChildren n = (if instanceof n AbstractBlock then map Some els else []) @ own"
      using Node by (simp add: buildChildren_def own_def)
    have len: "length (if instanceof n AbstractBlock then map Some els else []) = k"
      by (simp add: k_def)
    have "i - k < length own \<and> own ! (i - k) = Some c"
      using assms(1) ik bc len
      by (auto simp: childAt_def part_def nth_append split: if_splits)
    then have "i - k < length ps \<and> ps ! (i - k) = Some c"
      by (auto simp: own_def split: if_splits)
    then have u: "(map (map_option frozen) ps)[i - k := Some (frozen c')] = map (map_option frozen) ps"
      using assms(2) by (metis length_map list_update_id nth_map option.simps(9))
    have "setChild n i c' = Node a els (ps[i - k := Some c'])"
      using ik Node by (simp add: setChild_def k_def Let_def split: if_splits)
    then show ?thesis
      using u Node by (simp add: map_update)
  qed
qed

lemma frozen_updateAt:
  assumes "\<And>x. frozen (f x) = frozen x"
  shows "frozen (updateAt f n p) = frozen n"
proof (induction p arbitrary: n)
  case Nil
  then show ?case by (simp add: assms)
next
  case (Cons i p)
  show ?case
  proof (cases "childAt n i")
    case None
    then show ?thesis by simp
  next
    case (Some c)
    then show ?thesis
      using frozen_setChild [OF Some, of "updateAt f c p"] Cons.IH [of c] by simp
  qed
qed

lemma size_list_eqI:
  "(\<And>x. x \<in> set xs \<Longrightarrow> f x = g x) \<Longrightarrow> size_list f xs = size_list g xs"
  by (induction xs) auto

lemma size_frozen: "size (frozen n) = size n"
proof (induction n)
  case (Node a els ps)
  have e: "size_list size (map frozen els) = size_list size els"
    unfolding size_list_map by (rule size_list_eqI) (simp add: Node.IH(1))
  have "size_option size (map_option frozen x) = size_option size x" if "x \<in> set ps" for x
  proof (cases x)
    case None
    then show ?thesis by simp
  next
    case (Some y)
    then show ?thesis using that Node.IH(2) [of x y] by simp
  qed
  then have p: "size_list (size_option size) (map (map_option frozen) ps)
      = size_list (size_option size) ps"
    unfolding size_list_map by (intro size_list_eqI) simp
  show ?case using e p by simp
qed

lemma nodeAt_snoc:
  "nodeAt n (p @ [i]) = (case nodeAt n p of None \<Rightarrow> None | Some c \<Rightarrow> childAt c i)"
  by (induction p arbitrary: n) (auto split: option.splits)

lemma buildChildren_markDirtyLocal: "buildChildren (markDirtyLocal n) = buildChildren n"
  by (cases n) (simp add: markDirtyLocal_def withAttrs_def buildChildren_def instanceof_def)

definition childWeight :: "codenode option \<Rightarrow> nat" where
  "childWeight c = (case c of None \<Rightarrow> 0 | Some x \<Rightarrow> 2 * size x)"

lemma childWeight_elements:
  "sum_list (map (\<lambda>x. childWeight (Some x)) els) \<le> 2 * size_list size els"
  by (induction els) (auto simp: childWeight_def)

lemma childWeight_parts: "sum_list (map childWeight ps) \<le> 2 * size_list (size_option size) ps"
  by (induction ps) (auto simp: childWeight_def split: option.splits)

lemma childWeight_buildChildren: "sum_list (map childWeight (buildChildren n)) < 2 * size n"
proof (cases n)
  case (Node a els ps)
  show ?thesis
    using childWeight_parts [of ps] childWeight_elements [of els] Node
    by (auto simp: buildChildren_def comp_def)
qed

lemma childWeight_filter:
  "sum_list (map childWeight (filter P cs)) \<le> sum_list (map childWeight cs)"
  by (induction cs) auto

lemma size_codenode_pos: "0 < size (n :: codenode)"
  by (cases n) simp

definition weight :: "codenode \<Rightarrow> nat list \<Rightarrow> nat" where
  "weight r p = (case nodeAt r p of None \<Rightarrow> 1 | Some c \<Rightarrow> 2 * size c)"

lemma weight_pos: "0 < weight r p"
  by (cases "nodeAt r p") (simp_all add: weight_def size_codenode_pos)

lemma sum_filter_nth:
  "sum_list (map (\<lambda>i. g (xs ! i)) (filter (\<lambda>i. P (xs ! i)) [0..<length xs]))
     = sum_list (map g (filter P xs))"
proof -
  have "map (\<lambda>i. g (xs ! i)) (filter (\<lambda>i. P (xs ! i)) [0..<length xs])
      = map g (filter P (map ((!) xs) [0..<length xs]))"
    by (simp add: filter_map comp_def)
  then show ?thesis by (simp add: map_nth)
qed

lemma childPaths_weight:
  assumes "nodeAt r p = Some c"
  shows "sum_list (map (weight r) (childPaths c p)) < 2 * size c"
proof -
  let ?bc = "buildChildren c"
  have w: "weight r (p @ [i]) = childWeight (?bc ! i)"
    if "i < length ?bc" "?bc ! i \<noteq> None" for i
    using that assms
    by (auto simp: weight_def nodeAt_snoc childAt_def part_def childWeight_def)
  have f: "filter (\<lambda>i. childAt c i \<noteq> None) [0..<length ?bc]
         = filter (\<lambda>i. ?bc ! i \<noteq> None) [0..<length ?bc]"
    by (rule filter_cong) (auto simp: childAt_def part_def)
  have "sum_list (map (weight r) (childPaths c p))
      = sum_list (map (\<lambda>i. weight r (p @ [i])) (filter (\<lambda>i. ?bc ! i \<noteq> None) [0..<length ?bc]))"
    by (simp only: childPaths_def f map_map comp_def)
  also have "\<dots> = sum_list (map (\<lambda>i. childWeight (?bc ! i)) (filter (\<lambda>i. ?bc ! i \<noteq> None) [0..<length ?bc]))"
    by (rule arg_cong [where f = sum_list], rule map_cong) (auto simp: w)
  also have "\<dots> = sum_list (map childWeight (filter (\<lambda>x. x \<noteq> None) ?bc))"
    by (rule sum_filter_nth)
  also have "\<dots> \<le> sum_list (map childWeight ?bc)"
    by (rule childWeight_filter)
  finally show ?thesis
    using childWeight_buildChildren [of c] by simp
qed

text \<open>
  The loop of \<^verbatim>\<open>findChild\<close>, run by \<^verbatim>\<open>walkChildren\<close> with the walker
  \<^verbatim>\<open>(c) => { c.markDirty(); }\<close>: take the first reference of the queue, skip a
  \<^verbatim>\<open>null\<close>, call the walker on the node, which never ends the search, and append the
  node's children to the queue. It ends because the nodes in the queue, counted with
  all their descendants, become fewer.
\<close>

function walkChildren_markDirty :: "codenode \<Rightarrow> nat list list \<Rightarrow> codenode" where
  "walkChildren_markDirty root [] = root"
| "walkChildren_markDirty root (p # queue) =
     (case nodeAt root p of
        None \<Rightarrow> walkChildren_markDirty root queue
      | Some next \<Rightarrow>
          walkChildren_markDirty (updateAt markDirtyLocal root p)
            (queue @ childPaths (markDirtyLocal next) p))"
  by pat_completeness auto
termination
proof (relation "measure (\<lambda>(root, queue). sum_list (map (weight (frozen root)) queue))")
  show "wf (measure (\<lambda>(root, queue). sum_list (map (weight (frozen root)) queue)))"
    by simp
next
  fix root :: codenode and p :: "nat list" and queue :: "nat list list"
  assume "nodeAt root p = None"
  then show "((root, queue), (root, p # queue))
      \<in> measure (\<lambda>(root, queue). sum_list (map (weight (frozen root)) queue))"
    using weight_pos [of "frozen root" p] by simp
next
  fix root :: codenode and p :: "nat list" and queue :: "nat list list" and nxt :: codenode
  assume h: "nodeAt root p = Some nxt"
  have fr: "frozen (updateAt markDirtyLocal root p) = frozen root"
    by (rule frozen_updateAt) (rule frozen_markDirtyLocal)
  have at: "nodeAt (frozen root) p = Some (frozen nxt)"
    using h by (simp add: nodeAt_frozen)
  have same: "childPaths (markDirtyLocal nxt) p = childPaths (frozen nxt) p"
    by (simp add: childPaths_def childAt_def buildChildren_markDirtyLocal buildChildren_frozen part_def)
  have "sum_list (map (weight (frozen root)) (childPaths (frozen nxt) p)) < 2 * size (frozen nxt)"
    using at by (rule childPaths_weight)
  moreover have "weight (frozen root) p = 2 * size (frozen nxt)"
    using at by (simp add: weight_def)
  ultimately show "((updateAt markDirtyLocal root p, queue @ childPaths (markDirtyLocal nxt) p),
        (root, p # queue))
      \<in> measure (\<lambda>(root, queue). sum_list (map (weight (frozen root)) queue))"
    using fr same by simp
qed

text \<open>
  \<^verbatim>\<open>markDirty(recursive)\<close>: nothing for a plain \<^verbatim>\<open>CodeNode\<close>; otherwise the text is
  unset and, when \<^verbatim>\<open>recursive\<close>, \<^verbatim>\<open>walkChildren\<close> starts from the children
  (\<^verbatim>\<open>includeSelf\<close> is false).
\<close>

definition markDirty :: "bool \<Rightarrow> codenode \<Rightarrow> codenode" where
  "markDirty recursive n =
     (if ctorOf n = CodeNode then n
      else (let n' = withAttrs (\<lambda>a. a\<lparr>text := None\<rparr>) n
            in if recursive then walkChildren_markDirty n' (childPaths n' []) else n'))"


section \<open>The analyzer\<close>

text \<open>
  \<^verbatim>\<open>failAnalysis\<close> always throws: the error names what was being analyzed, the text of
  the parse node and its kind.
\<close>

definition failAnalysis :: "tsnode \<Rightarrow> string \<Rightarrow> error + codenode" where
  "failAnalysis nd type = Inl (CouldNotAnalyze type (getText nd) (kind nd))"

text \<open>\<^verbatim>\<open>block.elements.push(x)\<close>.\<close>

definition push :: "codenode \<Rightarrow> codenode \<Rightarrow> codenode" where
  "push block x = Node (attrs block) (elements block @ [x]) (parts block)"

text \<open>
  \<^verbatim>\<open>addSpacingAndGetExpressionText\<close> pushes the leading trivia of the parse node, when
  there is any, as a \<^verbatim>\<open>Trivia\<close>, and returns the text of the parse node without one
  trailing semicolon. \<^verbatim>\<open>substr(0, n)\<close> is the empty string for a negative \<^verbatim>\<open>n\<close>.
\<close>

definition addSpacingAndGetExpressionText :: "tsnode \<Rightarrow> codenode \<Rightarrow> string \<times> codenode" where
  "addSpacingAndGetExpressionText nd block =
     (let fullText = getFullText nd;
          filler = take (nat (getStart nd - getFullStart nd)) fullText;
          block' = (if length filler > 0 then push block (newSimple Trivia filler) else block);
          shortText = getText nd
      in (if shortText \<noteq> [] \<and> last shortText = CHR '';'' then butlast shortText else shortText,
          block'))"

definition addToBlock :: "codenode \<Rightarrow> codenode \<Rightarrow> tsnode \<Rightarrow> codenode" where
  "addToBlock statement block element =
     (case addSpacingAndGetExpressionText element block of
        (expressionText, block') \<Rightarrow> push block' (setText expressionText statement))"

text \<open>
  \<^verbatim>\<open>addTrailingBlockSpacing(block, blockNode)\<close>. Reading \<^verbatim>\<open>endOfFileToken\<close> or calling
  \<^verbatim>\<open>getLastToken\<close> on a missing parse node is a \<^verbatim>\<open>TypeError\<close>.
\<close>

definition addTrailingBlockSpacing :: "codenode \<Rightarrow> tsnode option \<Rightarrow> error + codenode" where
  "addTrailingBlockSpacing block blockNode =
     (case (if instanceof block Source
            then (case nodeOf block of None \<Rightarrow> Inl TypeError | Some sf \<Rightarrow> Inr (endOfFileToken sf))
            else (case blockNode of None \<Rightarrow> Inl TypeError | Some bn \<Rightarrow> Inr (getLastToken bn))) of
        Inl err \<Rightarrow> Inl err
      | Inr None \<Rightarrow> Inr block
      | Inr (Some lastToken) \<Rightarrow>
          if length (elements block) > 0 \<and> nodeOf (last (elements block)) = Some lastToken
          then Inr block
          else (let trailing = take (nat (getLeadingTriviaWidth lastToken)) (getFullText lastToken)
                in if length trailing > 0 then Inr (push block (newSimple Trivia trailing))
                   else Inr block))"

text \<open>
  The \<^verbatim>\<open>forEach\<close> of \<^verbatim>\<open>performBlockAnalysis\<close>. An element analyzer that throws is
  rethrown in strict mode, which leaves the loop with the block as it is by then; in
  lenient mode the element becomes a plain \<^verbatim>\<open>CodeNode\<close> with the text of the parse
  node. The result is the error, if any, and the block. An element analyzer is typed
  \<^verbatim>\<open>(e: NodeType) => CodeNode\<close>: it returns a node or throws.
\<close>

fun analyzeElements ::
  "bool \<Rightarrow> (tsnode \<Rightarrow> error + codenode) \<Rightarrow> codenode \<Rightarrow> tsnode list \<Rightarrow> error option \<times> codenode"
where
  "analyzeElements strictMode elementAnalyzer block [] = (None, block)"
| "analyzeElements strictMode elementAnalyzer block (e # es) =
     (case elementAnalyzer e of
        Inl err \<Rightarrow>
          if strictMode then (Some err, block)
          else analyzeElements strictMode elementAnalyzer
                 (addToBlock (setText (getText e) (registerWithNode e (new CodeNode))) block e) es
      | Inr codeNode \<Rightarrow>
          analyzeElements strictMode elementAnalyzer (addToBlock codeNode block e) es)"

definition performBlockAnalysis ::
  "bool \<Rightarrow> codenode \<Rightarrow> tsnode list \<Rightarrow> (tsnode \<Rightarrow> error + codenode) \<Rightarrow> bool
     \<Rightarrow> error option \<times> codenode"
where
  "performBlockAnalysis strictMode block elems elementAnalyzer ignoreTrailing =
     (if \<not> canAnalyzeBody block then (None, block)
      else
        (case analyzeElements strictMode elementAnalyzer block elems of
           (Some err, block') \<Rightarrow> (Some err, block')
         | (None, block') \<Rightarrow>
             (case (if \<not> ignoreTrailing then addTrailingBlockSpacing block' (nodeOf block')
                    else Inr block') of
                Inl err \<Rightarrow> (Some err, block')
              | Inr block'' \<Rightarrow>
                  (None, withAttrs (\<lambda>a. a\<lparr>bodyHasBeenAnalyzed := True\<rparr>) block''))))"

text \<open>
  The two dispatchers that \<^verbatim>\<open>analyze\<close> reaches. The cases that build a node from
  sub-parts of the parse node call other rules of the analyzer (and, when
  \<^verbatim>\<open>recursive\<close> is set, analyze the blocks inside); those rules are the parameter
  \<open>sub\<close>. The cases embedded in full are the two that build a leaf, and the default of
  \<^verbatim>\<open>analyzeStatement\<close>, which is \<^verbatim>\<open>failAnalysis\<close>. The parse node is never
  \<^verbatim>\<open>null\<close> here: it is an element of a statement list.
\<close>

definition analyzeStatement :: "(tsnode \<Rightarrow> error + codenode) \<Rightarrow> tsnode \<Rightarrow> error + codenode" where
  "analyzeStatement sub statement =
     (case kind statement of
        LabeledStatementKind \<Rightarrow> sub statement
      | ExportDeclarationKind \<Rightarrow> sub statement
      | ExportAssignmentKind \<Rightarrow> sub statement
      | SwitchStatement \<Rightarrow> sub statement
      | WithStatement \<Rightarrow> sub statement
      | ForOfStatement \<Rightarrow> sub statement
      | ForInStatement \<Rightarrow> sub statement
      | ForStatement \<Rightarrow> sub statement
      | TryStatement \<Rightarrow> sub statement
      | ThrowStatement \<Rightarrow> sub statement
      | ReturnStatement \<Rightarrow> sub statement
      | BreakStatement \<Rightarrow> sub statement
      | ContinueStatement \<Rightarrow> sub statement
      | DebuggerStatement \<Rightarrow>
          Inr (setText (getText statement)
                (registerWithNode statement (newSimple Keyword ''debugger'')))
      | Block \<Rightarrow> sub statement
      | DoStatement \<Rightarrow> sub statement
      | WhileStatement \<Rightarrow> sub statement
      | IfStatement \<Rightarrow> sub statement
      | EmptyStatement \<Rightarrow>
          Inr (setText (getText statement)
                (registerWithNode statement (newSimple EmptyExpression [])))
      | ExpressionStatement \<Rightarrow> sub statement
      | VariableStatement \<Rightarrow> sub statement
      | FunctionDeclaration \<Rightarrow> sub statement
      | _ \<Rightarrow> failAnalysis statement ''statement'')"

definition analyzeModuleElement :: "(tsnode \<Rightarrow> error + codenode) \<Rightarrow> tsnode \<Rightarrow> error + codenode" where
  "analyzeModuleElement sub moduleElement =
     (case kind moduleElement of
        ClassDeclaration \<Rightarrow> sub moduleElement
      | ImportEqualsDeclaration \<Rightarrow> sub moduleElement
      | ModuleDeclaration \<Rightarrow> sub moduleElement
      | EnumDeclaration \<Rightarrow> sub moduleElement
      | TypeAliasDeclaration \<Rightarrow> sub moduleElement
      | InterfaceDeclaration \<Rightarrow> sub moduleElement
      | ImportDeclaration \<Rightarrow> sub moduleElement
      | _ \<Rightarrow> analyzeStatement sub moduleElement)"

subsection \<open>The host\<close>

text \<open>
  What the host's methods read and write: the module variable \<^verbatim>\<open>strictMode\<close>, the
  \<^verbatim>\<open>Source\<close> objects (\<open>heap\<close>, by reference, since the registry and the caller share
  them; \<open>nextRef\<close> is the next fresh reference), the registry \<^verbatim>\<open>sources\<close>, and
  \<^verbatim>\<open>program.getSourceFile\<close>, the compiler's table of parsed files.
\<close>

record runtime =
  strictMode :: bool
  heap :: "nat \<rightharpoonup> codenode"
  nextRef :: nat
  sources :: "string \<rightharpoonup> nat"
  program :: "string \<rightharpoonup> tsnode"

text \<open>
  The argument \<^verbatim>\<open>source: string|statements.Source\<close>: a path, or a reference to a
  \<^verbatim>\<open>Source\<close>. Where the argument may be \<^verbatim>\<open>null\<close> it is a \<open>sourceArg option\<close>.
\<close>

datatype sourceArg = Path string | Instance nat

text \<open>
  \<^verbatim>\<open>getSource\<close>; \<open>normalizePath\<close> is \<^verbatim>\<open>path.normalize\<close> of the Node.js library, a
  parameter.
\<close>

definition getSource :: "(string \<Rightarrow> string) \<Rightarrow> runtime \<Rightarrow> sourceArg \<Rightarrow> nat \<times> runtime" where
  "getSource normalizePath rt sourcePath =
     (case sourcePath of
        Instance r \<Rightarrow> (r, rt)
      | Path p \<Rightarrow>
          (let normalizedPath = normalizePath p
           in case sources rt normalizedPath of
                Some r \<Rightarrow> (r, rt)
              | None \<Rightarrow>
                  (nextRef rt,
                   rt\<lparr>heap := (heap rt)(nextRef rt \<mapsto> newSource normalizedPath),
                      nextRef := Suc (nextRef rt),
                      sources := (sources rt)(normalizedPath \<mapsto> nextRef rt)\<rparr>)))"

text \<open>
  \<^verbatim>\<open>getAnalyzer\<close> returns the fields of the new \<^verbatim>\<open>SourceAnalyzer\<close>: the source, the
  parsed file and \<^verbatim>\<open>recursive\<close>. The message of the second error concatenates the
  argument, which renders a \<^verbatim>\<open>Source\<close> that was passed in.
\<close>

definition getAnalyzer ::
  "rules \<Rightarrow> (string \<Rightarrow> string) \<Rightarrow> runtime \<Rightarrow> sourceArg option \<Rightarrow> bool
     \<Rightarrow> (error + nat \<times> tsnode \<times> bool) \<times> runtime"
where
  "getAnalyzer \<beta> normalizePath rt source recursive =
     (case source of
        None \<Rightarrow> (Inl NullSourcePassed, rt)
      | Some src \<Rightarrow>
        (case getSource normalizePath rt src of
           (r, rt') \<Rightarrow>
             (case heap rt' r of
                None \<Rightarrow> (Inl TypeError, rt')
              | Some resolvedSource \<Rightarrow>
                  (case program rt' (fileName (attrs resolvedSource)) of
                     Some sourceFile \<Rightarrow> (Inr (r, sourceFile, recursive), rt')
                   | None \<Rightarrow>
                       (case src of
                          Path p \<Rightarrow> (Inl (SourceNotFound p), rt')
                        | Instance _ \<Rightarrow>
                            (case toString \<beta> resolvedSource of
                               (Inl err, s') \<Rightarrow> (Inl err, rt'\<lparr>heap := (heap rt')(r \<mapsto> s')\<rparr>)
                             | (Inr str, s') \<Rightarrow>
                                 (Inl (SourceNotFound str),
                                  rt'\<lparr>heap := (heap rt')(r \<mapsto> s')\<rparr>)))))))"

text \<open>
  \<^verbatim>\<open>SourceAnalyzer.analyze\<close> on the analyzer that \<^verbatim>\<open>getAnalyzer\<close> returned, and
  \<^verbatim>\<open>AnalyzerHost.analyze\<close>. The source is changed in place, also when the analysis
  throws. \<open>sub recursive\<close> are the construction rules for the flag \<^verbatim>\<open>recursive\<close>.
\<close>

definition SourceAnalyzer_analyze ::
  "(bool \<Rightarrow> tsnode \<Rightarrow> error + codenode) \<Rightarrow> runtime \<Rightarrow> nat \<times> tsnode \<times> bool
     \<Rightarrow> (error + nat) \<times> runtime"
where
  "SourceAnalyzer_analyze sub rt analyzer =
     (case analyzer of
        (r, sourceFile, recursive) \<Rightarrow>
          (case heap rt r of
             None \<Rightarrow> (Inl TypeError, rt)
           | Some source \<Rightarrow>
               (case performBlockAnalysis (strictMode rt)
                       (setText (getFullText sourceFile) (registerWithNode sourceFile source))
                       (statements sourceFile) (analyzeModuleElement (sub recursive)) False of
                  (None, source') \<Rightarrow> (Inr r, rt\<lparr>heap := (heap rt)(r \<mapsto> source')\<rparr>)
                | (Some err, source') \<Rightarrow> (Inl err, rt\<lparr>heap := (heap rt)(r \<mapsto> source')\<rparr>))))"

definition analyze ::
  "rules \<Rightarrow> (string \<Rightarrow> string) \<Rightarrow> (bool \<Rightarrow> tsnode \<Rightarrow> error + codenode) \<Rightarrow> runtime
     \<Rightarrow> sourceArg option \<Rightarrow> bool \<Rightarrow> (error + nat) \<times> runtime"
where
  "analyze \<beta> normalizePath sub rt source recursive =
     (case getAnalyzer \<beta> normalizePath rt source recursive of
        (Inl err, rt') \<Rightarrow> (Inl err, rt')
      | (Inr analyzer, rt') \<Rightarrow> SourceAnalyzer_analyze sub rt' analyzer)"

section \<open>Notions that the statements use\<close>



fun lastNonTrivia :: "bool list \<Rightarrow> nat option" where
  "lastNonTrivia [] = None"
| "lastNonTrivia (t # ts) =
     (case lastNonTrivia ts of Some k \<Rightarrow> Some (Suc k) | None \<Rightarrow> if t then None else Some 0)"


text \<open>What \<^verbatim>\<open>addToBlock\<close> appends for one parse node: its leading trivia, when there is
  any, and the node that the element analyzer built, with the text of the parse node
  less one trailing semicolon.\<close>

definition leadingTrivia :: "tsnode \<Rightarrow> string" where
  "leadingTrivia e = take (nat (getStart e - getFullStart e)) (getFullText e)"

definition expressionText :: "tsnode \<Rightarrow> string" where
  "expressionText e =
     (if getText e \<noteq> [] \<and> last (getText e) = CHR '';'' then butlast (getText e) else getText e)"

definition appended :: "codenode \<Rightarrow> tsnode \<Rightarrow> codenode list" where
  "appended statement e =
     (if leadingTrivia e = [] then [] else [newSimple Trivia (leadingTrivia e)])
     @ [setText (expressionText e) statement]"

text \<open>The node that enters the block for a parse node: the analyzer's, or the fallback.\<close>

definition produced :: "(tsnode \<Rightarrow> error + codenode) \<Rightarrow> tsnode \<Rightarrow> codenode" where
  "produced elementAnalyzer e =
     (case elementAnalyzer e of
        Inl err \<Rightarrow> setText (getText e) (registerWithNode e (new CodeNode))
      | Inr codeNode \<Rightarrow> codeNode)"

text \<open>
  The registry and the callers hold \<^verbatim>\<open>Source\<close> objects only, as the types
  \<^verbatim>\<open>{ [k: string]: statements.Source }\<close> and \<^verbatim>\<open>string|statements.Source\<close> say.
\<close>

definition sourcesOnly :: "runtime \<Rightarrow> bool" where
  "sourcesOnly rt = (\<forall>r s. heap rt r = Some s \<longrightarrow> ctorOf s = Source)"

section \<open>Example inputs\<close>

text \<open>
  The parse tree of the repository's own test of the fallback: a source file whose
  full text is \<^verbatim>\<open>sourceText\<close> and whose one statement, \<^verbatim>\<open>statementText\<close>, has the
  kind \<^verbatim>\<open>-100\<close>, which no rule of the analyzer knows. \<open>noRules\<close> are composition
  rules, and \<open>noSub\<close> construction rules, that always throw.
\<close>

definition mockStatement :: tsnode where
  "mockStatement =
     TsNode 1 (OtherKind (- 100)) ''statementText'' ''statementText'' 0 0 0 None [] None"

definition mockFile :: tsnode where
  "mockFile = TsNode 0 (OtherKind 0) ''sourceText'' ''sourceText'' 0 0 0 None [mockStatement] None"

definition noRules :: rules where
  "noRules n = (Inl (Thrown ''no rule''), n)"

definition noSub :: "bool \<Rightarrow> tsnode \<Rightarrow> error + codenode" where
  "noSub recursive e = Inl (Thrown ''no rule'')"

text \<open>The fallback node that lenient mode builds for \<open>mockStatement\<close>.\<close>

definition mockFallback :: codenode where
  "mockFallback = setText ''statementText'' (registerWithNode mockStatement (new CodeNode))"

text \<open>
  More parse trees: the statement \<^verbatim>\<open>debugger;\<close>, alone in a file and followed by a
  statement of an unknown kind, and a class declaration whose heritage clause extends
  no type. For that class, \<^verbatim>\<open>analyzeClassDeclaration\<close> calls
  \<^verbatim>\<open>failAnalysis(heritage, "heritage clause")\<close>: \<open>malformedHeritage\<close> are construction
  rules that do so. \<open>hostFor strict file\<close> is a new host in the given mode whose
  program has the one file \<^verbatim>\<open>filename\<close>. \<open>typeParameterT\<close> is
  \<^verbatim>\<open>new TypeParameter("T")\<close>.
\<close>

definition debuggerStatement :: tsnode where
  "debuggerStatement = TsNode 1 DebuggerStatement ''debugger;'' ''debugger;'' 0 0 0 None [] None"


definition debuggerFile :: tsnode where
  "debuggerFile = TsNode 0 (OtherKind 0) ''debugger;'' ''debugger;'' 0 0 0 None
     [debuggerStatement] None"


definition classStatement :: tsnode where
  "classStatement =
     TsNode 1 ClassDeclaration ''class A extends {}'' ''class A extends {}'' 0 0 0 None [] None"

definition heritageClause :: tsnode where
  "heritageClause = TsNode 2 (OtherKind 0) ''extends'' '' extends'' 8 7 1 None [] None"

definition classFile :: tsnode where
  "classFile = TsNode 0 (OtherKind 0) ''class A extends {}'' ''class A extends {}'' 0 0 0 None
     [classStatement] None"

definition malformedHeritage :: "bool \<Rightarrow> tsnode \<Rightarrow> error + codenode" where
  "malformedHeritage recursive e = failAnalysis heritageClause ''heritage clause''"

definition hostFor :: "bool \<Rightarrow> tsnode \<Rightarrow> runtime" where
  "hostFor strict file =
     \<lparr>strictMode = strict, heap = Map.empty, nextRef = 0, sources = Map.empty,
      program = [''filename'' \<mapsto> file]\<rparr>"

definition typeParameterT :: codenode where
  "typeParameterT = withAttrs (\<lambda>a. a\<lparr>name := ''T''\<rparr>) (new TypeParameter)"

section \<open>Facts about the class table\<close>

lemma statementLevelTerminal_owner:
  "lookupMethod declares_statementLevelTerminal c =
     (if c \<in> {Function, Lambda, Trivia, VariableDeclaration, If', Loop, Try, ForInOf, For, With}
      then c
      else if subclassOf c AbstractBlock then AbstractBlock else CodeNode)"
proof (cases c)
  case (Expr e)
  then show ?thesis
    by (simp add: lookupMethod_def subclassOf_def prototypeChain_Expr
        declares_statementLevelTerminal_def extendsExpr_def)
next
  case (Decl d)
  then show ?thesis
    by (simp add: lookupMethod_def subclassOf_def prototypeChain_Decl
        declares_statementLevelTerminal_def extendsDecl_def)
qed (simp_all add: lookupMethod_def subclassOf_def prototypeChain_def numeral_eq_Suc
      extends_def declares_statementLevelTerminal_def)

lemma subclassOf_AbstractBlock:
  "subclassOf c AbstractBlock =
     (c \<in> {AbstractBlock, AbstractStatementBlock, CodeBlock, AbstractExpressionBlock, Source,
            Module, Enumeration, TypeLiteral, Interface, Function, Lambda, Class, ArrayLiteral,
            ObjectLiteral, VariableDeclaration, Case, Switch})"
proof (cases c)
  case (Expr e)
  then show ?thesis
    by (simp add: subclassOf_def prototypeChain_Expr extendsExpr_def)
next
  case (Decl d)
  then show ?thesis
    by (simp add: subclassOf_def prototypeChain_Decl extendsDecl_def)
qed (simp_all add: subclassOf_def prototypeChain_def numeral_eq_Suc extends_def)


lemma buildString_owner:
  "lookupMethod declares_buildString c =
     (if c \<in> {Keyword, EmptyExpression, KeywordType, Trivia, AtomicValue, Identifier}
      then SimpleNode
      else if c = TypeLiteral then CodeBlock
      else if c = TypeParameter then CodeNode
      else (case c of
              Expr e \<Rightarrow> if declares_buildString (Expr e) then Expr e else extendsExpr e
            | Decl d \<Rightarrow> if declares_buildString (Decl d) then Decl d else extendsDecl d
            | _ \<Rightarrow> c))"
proof (cases c)
  case (Expr e)
  then show ?thesis
    by (simp add: lookupMethod_def prototypeChain_Expr declares_buildString_def extendsExpr_def)
next
  case (Decl d)
  then show ?thesis
    by (simp add: lookupMethod_def prototypeChain_Decl declares_buildString_def extendsDecl_def)
qed (simp_all add: lookupMethod_def prototypeChain_def numeral_eq_Suc extends_def
      declares_buildString_def)

lemmas analysis_defs =
  analyze_def getAnalyzer_def getSource_def SourceAnalyzer_analyze_def
  performBlockAnalysis_def canAnalyzeBody_def newSource_def new_def withAttrs_def setText_def
  registerWithNode_def analyzeModuleElement_def analyzeStatement_def failAnalysis_def
  addToBlock_def addSpacingAndGetExpressionText_def push_def addTrailingBlockSpacing_def
  instanceof_def newSimple_def hostFor_def noSub_def noRules_def Let_def
  subclassOf_def prototypeChain_def numeral_eq_Suc extends_def

section \<open>Statement terminators\<close>

text \<open>
  C7, as the code has it. \<^verbatim>\<open>CodeNode.statementLevelTerminal\<close> returns \<^verbatim>\<open>";"\<close> and
  \<^verbatim>\<open>AbstractBlock.statementLevelTerminal\<close> returns the empty string, and a node gets
  one of the two, by whether it is a block, unless its class overrides the method.
  Ten classes do: \<^verbatim>\<open>Trivia\<close>, \<^verbatim>\<open>Loop\<close>, \<^verbatim>\<open>Try\<close>, \<^verbatim>\<open>For\<close> and \<^verbatim>\<open>With\<close> return the empty
  string although they are no blocks, \<^verbatim>\<open>VariableDeclaration\<close> returns \<^verbatim>\<open>";"\<close> although
  it is a block, \<^verbatim>\<open>Function\<close> and \<^verbatim>\<open>Lambda\<close> return \<^verbatim>\<open>";"\<close> when \<^verbatim>\<open>declaredOnly\<close>,
  respectively \<^verbatim>\<open>isSingleExpression\<close>, is set, \<^verbatim>\<open>ForInOf\<close> returns the empty string
  when its body is a \<^verbatim>\<open>CodeBlock\<close>, and \<^verbatim>\<open>If\<close> returns what its else branch, or
  without one its then branch, returns.
\<close>

theorem statementLevelTerminal_by_class:
  "(ctorOf n \<notin> {Function, Lambda, Trivia, VariableDeclaration, If', Loop, Try, ForInOf, For, With}
      \<longrightarrow> statementLevelTerminal n = Inr (if instanceof n AbstractBlock then [] else '';''))
   \<and> (ctorOf n \<in> {Trivia, Loop, Try, For, With} \<longrightarrow> statementLevelTerminal n = Inr [])
   \<and> (ctorOf n = VariableDeclaration \<longrightarrow> statementLevelTerminal n = Inr '';'')
   \<and> (ctorOf n = Function \<longrightarrow>
        statementLevelTerminal n = Inr (if declaredOnly (attrs n) then '';'' else []))
   \<and> (ctorOf n = Lambda \<longrightarrow>
        statementLevelTerminal n = Inr (if isSingleExpression (attrs n) then '';'' else []))
   \<and> (ctorOf n = ForInOf \<longrightarrow>
        statementLevelTerminal n =
          Inr (case part (parts n) 2 of
                 Some body \<Rightarrow> if instanceof body CodeBlock then [] else '';''
               | None \<Rightarrow> '';''))
   \<and> (ctorOf n = If' \<longrightarrow>
        statementLevelTerminal n =
          (case part (parts n) 2 of
             Some elseCode \<Rightarrow> statementLevelTerminal elseCode
           | None \<Rightarrow>
               (case part (parts n) 1 of
                  Some thenCode \<Rightarrow> statementLevelTerminal thenCode
                | None \<Rightarrow> Inl TypeError)))"
proof (cases n)
  case (Node a els ps)
  show ?thesis
    unfolding Node
    by (simp add: statementLevelTerminal_owner instanceof_def split: option.split)
qed

theorem statementLevelTerminal_by_class_witness:
  "ctorOf (new CodeNode) \<notin>
     {Function, Lambda, Trivia, VariableDeclaration, If', Loop, Try, ForInOf, For, With}
   \<and> statementLevelTerminal (new CodeNode) = Inr '';''
   \<and> ctorOf (new CodeBlock) \<notin>
     {Function, Lambda, Trivia, VariableDeclaration, If', Loop, Try, ForInOf, For, With}
   \<and> statementLevelTerminal (new CodeBlock) = Inr []
   \<and> ctorOf (new Loop) \<in> {Trivia, Loop, Try, For, With}
   \<and> statementLevelTerminal (new Loop) = Inr []"
  using statementLevelTerminal_by_class [of "new CodeNode"]
    statementLevelTerminal_by_class [of "new CodeBlock"]
    statementLevelTerminal_by_class [of "new Loop"]
  by (simp add: new_def instanceof_def subclassOf_AbstractBlock)

text \<open>
  C7 as stated fails on both sides: a \<^verbatim>\<open>Trivia\<close> is no block and its terminator is the
  empty string, and a \<^verbatim>\<open>VariableDeclaration\<close> is a block and its terminator is \<^verbatim>\<open>";"\<close>.
\<close>

theorem statementLevelTerminal_counterexample:
  "\<not> instanceof (newSimple Trivia '' '') AbstractBlock
   \<and> statementLevelTerminal (newSimple Trivia '' '') = Inr []
   \<and> instanceof (new VariableDeclaration) AbstractBlock
   \<and> statementLevelTerminal (new VariableDeclaration) = Inr '';''"
  by (simp add: newSimple_def new_def withAttrs_def instanceof_def subclassOf_AbstractBlock
      statementLevelTerminal_owner)

section \<open>Rendering a node without text\<close>

text \<open>
  \<^verbatim>\<open>toString()\<close> throws on a plain \<^verbatim>\<open>CodeNode\<close> and on a bare \<^verbatim>\<open>AbstractBlock\<close>
  whose text is unset, and where \<^verbatim>\<open>toString()\<close> returns, the text was set, or the class
  has a \<^verbatim>\<open>buildString\<close> other than those two, or the node is a \<^verbatim>\<open>TypeParameter\<close>.
\<close>

lemma toString_unset_throws:
  assumes "ctorOf n \<in> {CodeNode, AbstractBlock}" and "textOf n = None"
  shows "toString \<beta> n = (Inl (if ctorOf n = CodeNode then NoTextFound else BlockIsAbstract), n)"
  using assms by (cases n) (auto simp: buildString_owner)

lemma toString_succeeds_only:
  assumes "toString \<beta> n = (Inr s, n')"
  shows "textOf n \<noteq> None \<or> ctorOf n = TypeParameter
         \<or> lookupMethod declares_buildString (ctorOf n) \<notin> {CodeNode, AbstractBlock}"
  using assms by (cases n) (auto split: option.splits if_splits)

text \<open>
  C10 at \<^verbatim>\<open>new TypeParameter("T")\<close>: the text is unset and the class has no
  \<^verbatim>\<open>buildString\<close> of its own, so that \<^verbatim>\<open>buildString()\<close> is \<^verbatim>\<open>CodeNode\<close>'s and throws;
  yet \<^verbatim>\<open>toString()\<close> returns \<^verbatim>\<open>T\<close>, because \<^verbatim>\<open>TypeParameter\<close> overrides
  \<^verbatim>\<open>toString()\<close> itself, and caches nothing.
\<close>

theorem TypeParameter_toString_succeeds:
  "textOf typeParameterT = None
   \<and> lookupMethod declares_buildString (ctorOf typeParameterT) = CodeNode
   \<and> buildString noRules typeParameterT = (Inl NoTextFound, typeParameterT)
   \<and> toString noRules typeParameterT = (Inr ''T'', typeParameterT)"
  by (simp add: typeParameterT_def new_def withAttrs_def buildString_owner)

section \<open>Invalidation leaves a plain CodeNode alone\<close>

lemma toString_cached:
  "ctorOf n \<noteq> TypeParameter \<Longrightarrow> textOf n = Some t \<Longrightarrow> toString \<beta> n = (Inr t, n)"
  by (cases n) simp

lemma frozen_walkChildren_markDirty: "frozen (walkChildren_markDirty root queue) = frozen root"
proof (induction root queue rule: walkChildren_markDirty.induct)
  case (1 root)
  then show ?case by simp
next
  case (2 root p queue)
  show ?case
  proof (cases "nodeAt root p")
    case None
    then show ?thesis using 2(1) by simp
  next
    case (Some nxt)
    have "frozen (updateAt markDirtyLocal root p) = frozen root"
      by (rule frozen_updateAt) (rule frozen_markDirtyLocal)
    then show ?thesis using 2(2) [OF Some] Some by simp
  qed
qed

lemma frozen_markDirty: "frozen (markDirty recursive n) = frozen n"
proof -
  have "frozen (withAttrs (\<lambda>a. a\<lparr>text := None\<rparr>) n) = frozen n" if "ctorOf n \<noteq> CodeNode"
    using that by (cases n) (simp add: withAttrs_def)
  then show ?thesis
    by (simp add: markDirty_def Let_def frozen_walkChildren_markDirty)
qed

lemma frozen_plain:
  assumes "frozen x = frozen y" and "ctorOf y = CodeNode"
  shows "attrs x = attrs y"
proof (cases x)
  case x: (Node a els ps)
  show ?thesis
  proof (cases y)
    case y: (Node b els' ps')
    have "(if ctor a = CodeNode then a else a\<lparr>text := None\<rparr>) = b"
      using assms x y by simp
    moreover have "ctor b = CodeNode" using assms(2) y by simp
    ultimately have "ctor a = CodeNode" by (auto split: if_splits)
    then show ?thesis using assms x y by simp
  qed
qed

text \<open>
  C5. Let \<open>c\<close> be a node whose constructor is \<^verbatim>\<open>CodeNode\<close> itself, with the cached text
  \<open>t\<close>, at the path \<open>p\<close> below a node \<open>a\<close>: \<open>c\<close> is \<open>a\<close> when \<open>p\<close> is empty, and a
  descendant of \<open>a\<close> otherwise. After \<^verbatim>\<open>a.markDirty(recursive)\<close>, for either value of
  \<^verbatim>\<open>recursive\<close>, the node at \<open>p\<close> has the fields of \<open>c\<close>, the cached text among them,
  and its \<^verbatim>\<open>toString()\<close> returns \<open>t\<close>.
\<close>

theorem markDirty_keeps_plain_CodeNode:
  assumes "nodeAt a p = Some c" and "ctorOf c = CodeNode" and "textOf c = Some t"
  shows "\<exists>c'. nodeAt (markDirty recursive a) p = Some c' \<and> attrs c' = attrs c
            \<and> toString \<beta> c' = (Inr t, c')"
proof -
  have "map_option frozen (nodeAt (markDirty recursive a) p) = map_option frozen (nodeAt a p)"
    by (simp add: nodeAt_frozen [symmetric] frozen_markDirty)
  then obtain c' where c': "nodeAt (markDirty recursive a) p = Some c'" "frozen c' = frozen c"
    using assms(1) by auto
  have at: "attrs c' = attrs c"
    using c'(2) assms(2) by (rule frozen_plain)
  then have "toString \<beta> c' = (Inr t, c')"
    using assms by (intro toString_cached) simp_all
  then show ?thesis using c'(1) at by blast
qed


theorem markDirty_keeps_plain_CodeNode_witness:
  "nodeAt (push (new CodeBlock) mockFallback) [0] = Some mockFallback
   \<and> ctorOf mockFallback = CodeNode \<and> textOf mockFallback = Some ''statementText''
   \<and> (\<exists>c'. nodeAt (markDirty True (push (new CodeBlock) mockFallback)) [0] = Some c'
          \<and> attrs c' = attrs mockFallback \<and> toString noRules c' = (Inr ''statementText'', c'))
   \<and> (\<exists>c'. nodeAt (markDirty False mockFallback) [] = Some c'
          \<and> attrs c' = attrs mockFallback \<and> toString noRules c' = (Inr ''statementText'', c'))"
proof -
  have h1: "nodeAt (push (new CodeBlock) mockFallback) [0] = Some mockFallback"
    by (simp add: push_def new_def childAt_def part_def buildChildren_def instanceof_def
        subclassOf_AbstractBlock)
  have h2: "ctorOf mockFallback = CodeNode"
    and h3: "textOf mockFallback = Some ''statementText''"
    by (simp_all add: mockFallback_def setText_def registerWithNode_def withAttrs_def new_def)
  have h4: "nodeAt mockFallback [] = Some mockFallback" by simp
  show ?thesis
    using h1 h2 h3 markDirty_keeps_plain_CodeNode [OF h1 h2 h3, of True noRules]
      markDirty_keeps_plain_CodeNode [OF h4 h2 h3, of False noRules]
    by simp
qed

section \<open>Commas in expression blocks\<close>


lemma lastNonTrivia_bound: "lastNonTrivia ts = Some k \<Longrightarrow> k < length ts"
  by (induction ts arbitrary: k) (auto split: option.splits if_splits)










section \<open>Block analysis\<close>

lemma addToBlock_appended:
  "addToBlock statement block e
     = Node (attrs block) (elements block @ appended statement e) (parts block)"
  by (simp add: addToBlock_def addSpacingAndGetExpressionText_def Let_def push_def appended_def
      leadingTrivia_def expressionText_def)

lemma analyzeElements_lenient:
  "analyzeElements False f block es
     = (None, Node (attrs block)
          (elements block @ concat (map (\<lambda>e. appended (produced f e) e) es)) (parts block))"
proof (induction es arbitrary: block)
  case Nil
  then show ?case by simp
next
  case (Cons e es)
  show ?case
    by (cases "f e") (simp_all add: Cons.IH addToBlock_appended produced_def)
qed




lemma analyzeElements_attrs: "attrs (snd (analyzeElements strict f block es)) = attrs block"
proof (induction es arbitrary: block)
  case Nil
  then show ?case by simp
next
  case (Cons e es)
  show ?case
    using Cons.IH by (cases "f e"; cases strict) (simp_all add: addToBlock_appended)
qed

lemma addTrailingBlockSpacing_attrs:
  "addTrailingBlockSpacing block bn = Inr block' \<Longrightarrow> attrs block' = attrs block"
  by (auto simp: addTrailingBlockSpacing_def push_def Let_def
      split: if_splits option.splits sum.splits)


lemma performBlockAnalysis_attrs:
  assumes "performBlockAnalysis strict block es f ig = (res, block')"
  shows "ctorOf block' = ctorOf block \<and> textOf block' = textOf block
         \<and> nodeOf block' = nodeOf block \<and> fileName (attrs block') = fileName (attrs block)"
proof (cases "canAnalyzeBody block")
  case False
  then show ?thesis using assms by (simp add: performBlockAnalysis_def)
next
  case True
  obtain e b where ae: "analyzeElements strict f block es = (e, b)"
    by (cases "analyzeElements strict f block es")
  have b: "attrs b = attrs block"
    using analyzeElements_attrs [of strict f block es] ae by simp
  show ?thesis
  proof (cases e)
    case (Some err)
    then show ?thesis
      using assms True ae b by (simp add: performBlockAnalysis_def)
  next
    case None
    show ?thesis
    proof (cases "if \<not> ig then addTrailingBlockSpacing b (nodeOf b) else Inr b")
      case (Inl err)
      then show ?thesis
        using assms True ae b None by (simp add: performBlockAnalysis_def)
    next
      case (Inr b2)
      then have "attrs b2 = attrs b"
        by (auto split: if_splits dest: addTrailingBlockSpacing_attrs)
      then show ?thesis
        using assms True ae b None Inr by (auto simp: performBlockAnalysis_def withAttrs_def)
    qed
  qed
qed


lemma getSource_heap:
  assumes "getSource np rt arg = (r, rt')" and "sourcesOnly rt"
  shows "sourcesOnly rt' \<and> program rt' = program rt \<and> strictMode rt' = strictMode rt"
  using assms
  by (auto simp: getSource_def sourcesOnly_def Let_def newSource_def new_def withAttrs_def
      split: sourceArg.splits option.splits if_splits)

lemma getAnalyzer_Inr:
  assumes "getAnalyzer \<beta> np rt arg recursive = (Inr (r, sf, rec), rt')"
  shows "\<exists>s src. heap rt' r = Some s \<and> program rt' (fileName (attrs s)) = Some sf
           \<and> arg = Some src \<and> getSource np rt src = (r, rt') \<and> rec = recursive"
  using assms
  by (auto simp: getAnalyzer_def split: prod.splits option.splits sourceArg.splits sum.splits)

lemma analyze_lenient_succeeds:
  assumes "\<not> strictMode rt" and "sources rt (normalizePath p) = None"
    and "program rt (normalizePath p) = Some sf"
  shows "fst (analyze \<beta> normalizePath sub rt (Some (Path p)) recursive) = Inr (nextRef rt)"
proof -
  let ?s = "setText (getFullText sf) (registerWithNode sf (newSource (normalizePath p)))"
  have c: "canAnalyzeBody ?s"
    by (simp add: canAnalyzeBody_def setText_def registerWithNode_def withAttrs_def
        newSource_def new_def)
  have i: "instanceof (Node (attrs ?s) els ps) Source" for els ps
    by (simp add: instanceof_def setText_def registerWithNode_def withAttrs_def newSource_def
        new_def subclassOf_def prototypeChain_def numeral_eq_Suc extends_def)
  have n: "node (attrs ?s) = Some sf"
    by (simp add: setText_def registerWithNode_def withAttrs_def)
  have "fst (performBlockAnalysis False ?s (statements sf) f False) = None" for f
    using c i n
    by (simp add: performBlockAnalysis_def analyzeElements_lenient addTrailingBlockSpacing_def
        Let_def split: option.splits)
  then have "\<exists>s'. performBlockAnalysis False ?s (statements sf) f False = (None, s')" for f
    by (metis prod.collapse)
  then obtain s' where "performBlockAnalysis False ?s (statements sf)
      (analyzeModuleElement (sub recursive)) False = (None, s')"
    by blast
  then show ?thesis
    using assms
    by (simp add: analyze_def getAnalyzer_def getSource_def SourceAnalyzer_analyze_def Let_def
        newSource_def new_def withAttrs_def setText_def registerWithNode_def)
qed

section \<open>The root renders the text of the file\<close>

text \<open>
  C1. When \<^verbatim>\<open>analyze(source, recursive)\<close> returns, for either value of \<^verbatim>\<open>recursive\<close>
  and in particular for \<^verbatim>\<open>true\<close>, the \<^verbatim>\<open>Source\<close> it returns is registered with the
  parsed file of its \<^verbatim>\<open>fileName\<close>, and its \<^verbatim>\<open>toString()\<close>, called before anything
  changes the tree, returns the full text of that file as it is, so that the two
  differ by nothing, a trailing newline included. The analysis returns in lenient mode
  whenever the program has the file (lemma \<open>analyze_lenient_succeeds\<close>).
\<close>

theorem analyze_renders_source_text:
  assumes "analyze \<beta> normalizePath sub rt source recursive = (Inr r, rt')"
    and "sourcesOnly rt"
  shows "\<exists>s sf. heap rt' r = Some s \<and> nodeOf s = Some sf
            \<and> program rt' (fileName (attrs s)) = Some sf
            \<and> toString \<beta> s = (Inr (getFullText sf), s)"
proof -
  obtain an rtg where g: "getAnalyzer \<beta> normalizePath rt source recursive = (Inr an, rtg)"
    and sa: "SourceAnalyzer_analyze sub rtg an = (Inr r, rt')"
    using assms(1) by (auto simp: analyze_def split: prod.splits sum.splits)
  obtain r0 sf rec where an: "an = (r0, sf, rec)" by (cases an)
  from getAnalyzer_Inr [OF g [unfolded an]]
  obtain s src where s: "heap rtg r0 = Some s" "program rtg (fileName (attrs s)) = Some sf"
    "getSource normalizePath rt src = (r0, rtg)"
    by blast
  have so: "sourcesOnly rtg" using getSource_heap [OF s(3) assms(2)] by simp
  then have cs: "ctorOf s = Source" using s(1) by (auto simp: sourcesOnly_def)
  let ?prep = "setText (getFullText sf) (registerWithNode sf s)"
  obtain res s1 where pb: "performBlockAnalysis (strictMode rtg) ?prep (statements sf)
      (analyzeModuleElement (sub rec)) False = (res, s1)"
    by (cases "performBlockAnalysis (strictMode rtg) ?prep (statements sf)
      (analyzeModuleElement (sub rec)) False")
  have r: "r = r0" "rt' = rtg\<lparr>heap := (heap rtg)(r0 \<mapsto> s1)\<rparr>"
    using sa an s(1) pb by (auto simp: SourceAnalyzer_analyze_def split: option.splits)
  have at: "ctorOf s1 = Source" "textOf s1 = Some (getFullText sf)" "nodeOf s1 = Some sf"
    "fileName (attrs s1) = fileName (attrs s)"
    using performBlockAnalysis_attrs [OF pb] cs
    by (simp_all add: setText_def registerWithNode_def withAttrs_def)
  have "toString \<beta> s1 = (Inr (getFullText sf), s1)"
    using at by (intro toString_cached) simp_all
  then show ?thesis
    using r at s(2) by simp
qed

theorem analyze_renders_source_text_witness:
  "fst (analyze noRules id noSub (hostFor False mockFile) (Some (Path ''filename'')) True) = Inr 0
   \<and> sourcesOnly (hostFor False mockFile)
   \<and> (\<exists>s sf. heap (snd (analyze noRules id noSub (hostFor False mockFile) (Some (Path ''filename''))
                        True)) 0 = Some s
          \<and> nodeOf s = Some sf
          \<and> program (snd (analyze noRules id noSub (hostFor False mockFile) (Some (Path ''filename''))
                        True)) (fileName (attrs s)) = Some sf
          \<and> toString noRules s = (Inr (getFullText sf), s))"
proof -
  let ?a = "analyze noRules id noSub (hostFor False mockFile) (Some (Path ''filename'')) True"
  have f: "fst ?a = Inr 0"
    by (simp add: analysis_defs mockFile_def mockStatement_def)
  then have h1: "?a = (Inr 0, snd ?a)"
    by (metis prod.collapse)
  have h2: "sourcesOnly (hostFor False mockFile)"
    by (simp add: sourcesOnly_def hostFor_def)
  show ?thesis
    using f h2 analyze_renders_source_text [OF h1 h2] by simp
qed

section \<open>Analysis is idempotent\<close>






section \<open>A failure in strict mode\<close>




section \<open>Which errors are fatal\<close>

text \<open>
  C4, as the code has it. \<^verbatim>\<open>analyze(null)\<close> throws in every mode, and so does
  \<^verbatim>\<open>analyze(path)\<close> for a path that the program has no file for. An error that the
  element analyzer throws, whatever it is, is never fatal in lenient mode: the
  analysis goes on with a plain \<^verbatim>\<open>CodeNode\<close> in place of the element. In strict mode
  it is rethrown and the block stays as it was before the element.
\<close>

theorem analysis_errors:
  "analyze \<beta> normalizePath sub rt None recursive = (Inl NullSourcePassed, rt)
   \<and> (sources rt (normalizePath p) = None \<and> program rt (normalizePath p) = None \<longrightarrow>
        fst (analyze \<beta> normalizePath sub rt (Some (Path p)) recursive) = Inl (SourceNotFound p))
   \<and> fst (analyzeElements False elementAnalyzer block es) = None
   \<and> (elementAnalyzer e = Inl err \<longrightarrow>
        analyzeElements False elementAnalyzer block (e # es)
          = analyzeElements False elementAnalyzer
              (addToBlock (setText (getText e) (registerWithNode e (new CodeNode))) block e) es)
   \<and> (elementAnalyzer e = Inl err \<longrightarrow>
        analyzeElements True elementAnalyzer block (e # es) = (Some err, block))"
  by (simp add: analyze_def getAnalyzer_def getSource_def analyzeElements_lenient Let_def
      newSource_def new_def withAttrs_def)

theorem analysis_errors_witness:
  "sources (hostFor True mockFile) (id ''elsewhere'') = None
   \<and> program (hostFor True mockFile) (id ''elsewhere'') = None
   \<and> fst (analyze noRules id noSub (hostFor True mockFile) (Some (Path ''elsewhere'')) True)
       = Inl (SourceNotFound ''elsewhere'')
   \<and> analyzeModuleElement (noSub True) mockStatement
       = Inl (CouldNotAnalyze ''statement'' ''statementText'' (OtherKind (- 100)))
   \<and> analyzeElements False (analyzeModuleElement (noSub True)) (new CodeBlock) [mockStatement]
       = analyzeElements False (analyzeModuleElement (noSub True))
           (addToBlock mockFallback (new CodeBlock) mockStatement) []
   \<and> analyzeElements True (analyzeModuleElement (noSub True)) (new CodeBlock) [mockStatement]
       = (Some (CouldNotAnalyze ''statement'' ''statementText'' (OtherKind (- 100))),
          new CodeBlock)"
proof -
  have h1: "sources (hostFor True mockFile) (id ''elsewhere'') = None
      \<and> program (hostFor True mockFile) (id ''elsewhere'') = None"
    by (simp add: hostFor_def)
  have h2: "analyzeModuleElement (noSub True) mockStatement
       = Inl (CouldNotAnalyze ''statement'' ''statementText'' (OtherKind (- 100)))"
    by (simp add: analyzeModuleElement_def analyzeStatement_def mockStatement_def
        failAnalysis_def)
  have g: "getText mockStatement = ''statementText''"
    by (simp add: mockStatement_def)
  show ?thesis
    using h1 h2
      analysis_errors [of noRules id noSub "hostFor True mockFile" True "''elsewhere''"
        "analyzeModuleElement (noSub True)" "new CodeBlock" "[]" mockStatement
        "CouldNotAnalyze ''statement'' ''statementText'' (OtherKind (- 100))"]
    by (simp add: mockFallback_def g)
qed

text \<open>
  C4 as stated fails for an error of \<^verbatim>\<open>failAnalysis\<close> that reports a missing
  sub-element. In lenient mode, for a file of one class declaration whose heritage
  clause extends no type, the rule throws through \<^verbatim>\<open>failAnalysis\<close>, and \<^verbatim>\<open>analyze\<close>
  returns all the same, with a plain \<^verbatim>\<open>CodeNode\<close> for the class.
\<close>

theorem analysis_errors_counterexample:
  "analyzeModuleElement (malformedHeritage True) classStatement
     = Inl (CouldNotAnalyze ''heritage clause'' ''extends'' (OtherKind 0))
   \<and> fst (analyze noRules id malformedHeritage (hostFor False classFile) (Some (Path ''filename'')) True)
     = Inr 0
   \<and> map_option (\<lambda>s. (map ctorOf (elements s), map textOf (elements s)))
        (heap (snd (analyze noRules id malformedHeritage (hostFor False classFile)
                (Some (Path ''filename'')) True)) 0)
     = Some ([CodeNode], [Some ''class A extends {}''])"
  by (simp add: analysis_defs classFile_def classStatement_def heritageClause_def
      malformedHeritage_def)

section \<open>The text of an appended node\<close>

text \<open>
  C9, as the code has it. \<^verbatim>\<open>addToBlock(statement, block, e)\<close> appends the leading
  trivia of \<open>e\<close>, when there is any, and then \<open>statement\<close>, whose cached text it sets
  to the text of \<open>e\<close> less one trailing semicolon. It leaves the origin link as the
  construction rule set it; the fallback node of lenient mode is registered with \<open>e\<close>.
  The appended node, unless it is a \<^verbatim>\<open>TypeParameter\<close>, then renders that cached text,
  with no composition rule involved.
\<close>

theorem addToBlock_text:
  "elements (addToBlock statement block e) = elements block @ appended statement e
   \<and> last (elements (addToBlock statement block e)) = setText (expressionText e) statement
   \<and> textOf (last (elements (addToBlock statement block e))) = Some (expressionText e)
   \<and> nodeOf (last (elements (addToBlock statement block e))) = nodeOf statement
   \<and> (elementAnalyzer e = Inl err \<longrightarrow> nodeOf (produced elementAnalyzer e) = Some e)
   \<and> (ctorOf statement \<noteq> TypeParameter \<longrightarrow>
        toString \<beta> (last (elements (addToBlock statement block e)))
          = (Inr (expressionText e), last (elements (addToBlock statement block e))))"
proof -
  have l: "last (elements (addToBlock statement block e)) = setText (expressionText e) statement"
    by (simp add: addToBlock_appended appended_def)
  have t: "textOf (setText (expressionText e) statement) = Some (expressionText e)"
    "nodeOf (setText (expressionText e) statement) = nodeOf statement"
    "ctorOf (setText (expressionText e) statement) = ctorOf statement"
    by (simp_all add: setText_def withAttrs_def)
  have "toString \<beta> (setText (expressionText e) statement)
      = (Inr (expressionText e), setText (expressionText e) statement)"
    if "ctorOf statement \<noteq> TypeParameter"
    using that t by (intro toString_cached) simp_all
  then show ?thesis
    using l t
    by (simp add: addToBlock_appended produced_def setText_def registerWithNode_def withAttrs_def)
qed

theorem addToBlock_text_witness:
  "analyzeModuleElement (noSub True) mockStatement
     = Inl (CouldNotAnalyze ''statement'' ''statementText'' (OtherKind (- 100)))
   \<and> nodeOf (produced (analyzeModuleElement (noSub True)) mockStatement) = Some mockStatement
   \<and> ctorOf (produced (analyzeModuleElement (noSub True)) debuggerStatement) \<noteq> TypeParameter
   \<and> expressionText debuggerStatement = ''debugger''
   \<and> toString noRules
        (last (elements (addToBlock (produced (analyzeModuleElement (noSub True)) debuggerStatement)
           (new CodeBlock) debuggerStatement)))
       = (Inr ''debugger'',
          last (elements (addToBlock (produced (analyzeModuleElement (noSub True)) debuggerStatement)
           (new CodeBlock) debuggerStatement)))"
proof -
  have h1: "analyzeModuleElement (noSub True) mockStatement
       = Inl (CouldNotAnalyze ''statement'' ''statementText'' (OtherKind (- 100)))"
    by (simp add: analyzeModuleElement_def analyzeStatement_def mockStatement_def
        failAnalysis_def)
  have h2: "ctorOf (produced (analyzeModuleElement (noSub True)) debuggerStatement) \<noteq> TypeParameter"
    by (simp add: produced_def analyzeModuleElement_def analyzeStatement_def
        debuggerStatement_def setText_def registerWithNode_def withAttrs_def newSimple_def new_def)
  have h3: "expressionText debuggerStatement = ''debugger''"
    by (simp add: expressionText_def debuggerStatement_def)
  let ?d = "produced (analyzeModuleElement (noSub True)) debuggerStatement"
  have w1: "nodeOf (produced (analyzeModuleElement (noSub True)) mockStatement) = Some mockStatement"
    using h1
      addToBlock_text [where statement = ?d and block = "new CodeBlock" and e = mockStatement
        and elementAnalyzer = "analyzeModuleElement (noSub True)"
        and err = "CouldNotAnalyze ''statement'' ''statementText'' (OtherKind (- 100))"
        and \<beta> = noRules]
    by blast
  have "toString noRules (last (elements (addToBlock ?d (new CodeBlock) debuggerStatement)))
       = (Inr (expressionText debuggerStatement),
          last (elements (addToBlock ?d (new CodeBlock) debuggerStatement)))"
    using h2
      addToBlock_text [where statement = ?d and block = "new CodeBlock" and e = debuggerStatement
        and elementAnalyzer = "analyzeModuleElement (noSub True)"
        and err = "CouldNotAnalyze ''statement'' ''statementText'' (OtherKind (- 100))"
        and \<beta> = noRules]
    by blast
  then have w2: "toString noRules (last (elements (addToBlock ?d (new CodeBlock) debuggerStatement)))
       = (Inr ''debugger'', last (elements (addToBlock ?d (new CodeBlock) debuggerStatement)))"
    by (simp only: h3)
  show ?thesis
    using h1 h2 h3 w1 w2 by blast
qed

text \<open>
  C9 as stated fails for a statement that ends in a semicolon: for the file
  \<^verbatim>\<open>debugger;\<close> the literal slice of the statement is \<^verbatim>\<open>debugger;\<close> and the cached text
  of the appended \<^verbatim>\<open>Keyword\<close> is \<^verbatim>\<open>debugger\<close>.
\<close>

theorem addToBlock_text_counterexample:
  "getText debuggerStatement = ''debugger;''
   \<and> fst (analyze noRules id noSub (hostFor False debuggerFile) (Some (Path ''filename'')) True) = Inr 0
   \<and> map_option (\<lambda>s. (map ctorOf (elements s), map textOf (elements s)))
        (heap (snd (analyze noRules id noSub (hostFor False debuggerFile) (Some (Path ''filename''))
                True)) 0)
     = Some ([Keyword], [Some ''debugger''])"
  by (simp add: analysis_defs debuggerFile_def debuggerStatement_def)

section \<open>The newline at the end of a source\<close>

lemma Source_buildString_newline:
  assumes "Source_buildString \<beta> n = (Inr s, n')"
  shows "s \<noteq> [] \<and> last s = newline
         \<and> (\<exists>body. AbstractStatementBlock_buildString \<beta> n = (Inr body, n')
              \<and> s = (if body \<noteq> [] \<and> last body = newline then body else body @ [newline]))"
proof (cases n)
  case (Node a els ps)
  obtain r m where r: "AbstractStatementBlock_buildString \<beta> (Node a els ps) = (r, m)"
    by (cases "AbstractStatementBlock_buildString \<beta> (Node a els ps)")
  show ?thesis
  proof (cases r)
    case (Inl e)
    then show ?thesis using assms Node r by simp
  next
    case (Inr body)
    then show ?thesis using assms Node r by (auto split: if_splits)
  qed
qed

text \<open>
  C8, as the code has it. When a \<^verbatim>\<open>Source\<close> whose text is unset renders, the result is
  what \<^verbatim>\<open>AbstractStatementBlock.buildString\<close> returns for it, with one newline added
  when that does not end in a newline already: it ends in a newline, and the
  newlines that already end it are kept.
\<close>

theorem Source_buildString_ends_with_newline:
  assumes "ctorOf n = Source" and "textOf n = None" and "toString \<beta> n = (Inr s, n')"
  shows "s \<noteq> [] \<and> last s = newline
         \<and> (\<exists>body m. AbstractStatementBlock_buildString \<beta> n = (Inr body, m)
              \<and> s = (if body \<noteq> [] \<and> last body = newline then body else body @ [newline]))"
proof (cases n)
  case (Node a els ps)
  obtain r m where r: "Source_buildString \<beta> (Node a els ps) = (r, m)"
    by (cases "Source_buildString \<beta> (Node a els ps)")
  have "r = Inr s"
    using assms Node r by (cases r) (simp_all add: buildString_owner)
  then show ?thesis
    using Source_buildString_newline [of \<beta> n s m] r Node by blast
qed

theorem Source_buildString_ends_with_newline_witness:
  "ctorOf (push (newSource ''filename'') (newSimple Trivia ''x'')) = Source
   \<and> textOf (push (newSource ''filename'') (newSimple Trivia ''x'')) = None
   \<and> fst (toString noRules (push (newSource ''filename'') (newSimple Trivia ''x'')))
       = Inr [CHR ''x'', newline]
   \<and> (\<exists>body m. AbstractStatementBlock_buildString noRules
          (push (newSource ''filename'') (newSimple Trivia ''x'')) = (Inr body, m)
        \<and> [CHR ''x'', newline]
            = (if body \<noteq> [] \<and> last body = newline then body else body @ [newline]))"
proof -
  let ?n = "push (newSource ''filename'') (newSimple Trivia ''x'')"
  have h1: "ctorOf ?n = Source" and h2: "textOf ?n = None"
    by (simp_all add: push_def newSource_def new_def withAttrs_def)
  have f: "fst (toString noRules ?n) = Inr [CHR ''x'', newline]"
    by (simp add: push_def newSource_def newSimple_def new_def withAttrs_def setText_def
        buildString_owner statementLevelTerminal_owner newline_def)
  then have h3: "toString noRules ?n = (Inr [CHR ''x'', newline], snd (toString noRules ?n))"
    by (metis prod.collapse)
  show ?thesis
    using h1 h2 f Source_buildString_ends_with_newline [OF h1 h2 h3] by blast
qed

text \<open>
  C8 as stated fails in both directions. Straight after the analysis the root renders
  its cached text, the text of the file: \<^verbatim>\<open>sourceText\<close>, with no newline at its end.
  And a \<^verbatim>\<open>Source\<close> whose elements end in two newlines renders, when its text is
  unset, with both of them.
\<close>

theorem Source_buildString_counterexample:
  "map_option (\<lambda>s. fst (toString noRules s))
        (heap (snd (analyze noRules id noSub (hostFor False mockFile) (Some (Path ''filename''))
                True)) 0)
     = Some (Inr ''sourceText'')
   \<and> fst (toString noRules (push (newSource ''filename'') (newSimple Trivia [newline, newline])))
     = Inr [newline, newline]"
  by (simp add: analysis_defs mockFile_def mockStatement_def buildString_owner
      statementLevelTerminal_owner)

end
